theory Spec2Isabelle
  imports Main "HOL-Library.Multiset" "HOL-Library.AList"
begin

section \<open>Exceptions and Python helpers\<close>

text \<open>
  The exceptions the modelled functions raise or let through. A function that can raise
  returns \<open>exn + 'a\<close>, with \<open>Inl\<close> for the raised exception.
\<close>

datatype exn =
    RuntimeError string
  | BadArgument string
  | TypeError
  | OtherError string

text \<open>Python's \<open>str\<close> of an integer, as an f-string prints it.\<close>

definition digit_char :: "nat \<Rightarrow> char" where
  "digit_char d = ''0123456789'' ! d"

fun str_nat :: "nat \<Rightarrow> string" where
  "str_nat n =
     (if n < 10 then [digit_char n]
      else str_nat (n div 10) @ [digit_char (n mod 10)])"

definition str_int :: "int \<Rightarrow> string" where
  "str_int i = (if i < 0 then CHR ''-'' # str_nat (nat (- i)) else str_nat (nat i))"

section \<open>cogs/moderation.py: the newusers command\<close>

text \<open>
  A guild member as \<open>newusers\<close> reads it: \<open>member_str\<close> is \<open>str(member)\<close>;
  \<open>joined_at\<close> is optional in discord.py, \<open>created_at\<close> is not. Times are
  timestamps.
\<close>

record member =
  member_id :: int
  member_str :: string
  joined_at :: "int option"
  created_at :: int

record embed =
  title :: string
  colour :: string
  embed_fields :: "(string \<times> string \<times> bool) list"

definition add_field :: "embed \<Rightarrow> string \<Rightarrow> string \<Rightarrow> bool \<Rightarrow> embed" where
  "add_field e name val inline = e\<lparr>embed_fields := embed_fields e @ [(name, val, inline)]\<rparr>"

text \<open>\<open>count = max(min(int(count), 25), 5)\<close>\<close>

definition effective_count :: "int \<Rightarrow> int" where
  "effective_count cnt = max (min cnt 25) 5"

definition joined_key :: "member \<Rightarrow> int" where
  "joined_key m = (case joined_at m of Some t \<Rightarrow> t | None \<Rightarrow> 0)"

text \<open>
  \<open>sorted(members, key=lambda m: m.joined_at, reverse=True)\<close>. Python's sort is stable
  also with \<open>reverse=True\<close> (members that joined at the same time keep their order), and
  comparing \<open>None\<close> raises \<open>TypeError\<close>, which happens as soon as two members are
  compared and one has no join time.
\<close>

definition sorted_by_joined_desc :: "member list \<Rightarrow> exn + member list" where
  "sorted_by_joined_desc ms =
     (if 2 \<le> length ms \<and> None \<in> set (map joined_at ms) then Inl TypeError
      else Inr (rev (sort_key joined_key (rev ms))))"

definition field_name :: "member \<Rightarrow> string" where
  "field_name m = member_str m @ '' (ID: '' @ str_int (member_id m) @ '')''"

text \<open>
  The loop that adds one field per member. \<open>human_timedelta\<close> is a helper of
  \<open>cogs.utils\<close>: it is a parameter here, and may raise.
\<close>

fun add_member_fields ::
  "(int option \<Rightarrow> exn + string) \<Rightarrow> member list \<Rightarrow> embed \<Rightarrow> exn + embed" where
  "add_member_fields human_timedelta [] e = Inr e"
| "add_member_fields human_timedelta (m # ms) e =
     (case human_timedelta (joined_at m) of
        Inl x \<Rightarrow> Inl x
      | Inr j \<Rightarrow>
          (case human_timedelta (Some (created_at m)) of
             Inl x \<Rightarrow> Inl x
           | Inr c \<Rightarrow>
               add_member_fields human_timedelta ms
                 (add_field e (field_name m) (''joined '' @ j @ '', created '' @ c) False)))"

text \<open>The command: the embed it sends, or the exception it raises.\<close>

definition newusers ::
  "(int option \<Rightarrow> exn + string) \<Rightarrow> member list \<Rightarrow> int \<Rightarrow> exn + embed" where
  "newusers human_timedelta guild_members cnt =
     (let count' = effective_count cnt in
      case sorted_by_joined_desc guild_members of
        Inl x \<Rightarrow> Inl x
      | Inr s \<Rightarrow>
          add_member_fields human_timedelta (take (nat count') s)
            \<lparr>title = ''New Members'', colour = ''green'', embed_fields = []\<rparr>)"

text \<open>A guild of three members and a \<open>human_timedelta\<close> that prints the timestamp.\<close>

definition demo_members :: "member list" where
  "demo_members =
     [\<lparr>member_id = 1, member_str = ''ann#0001'', joined_at = Some 30, created_at = 3\<rparr>,
      \<lparr>member_id = 2, member_str = ''bob#0002'', joined_at = Some 50, created_at = 5\<rparr>,
      \<lparr>member_id = 3, member_str = ''cyd#0003'', joined_at = Some 30, created_at = 4\<rparr>]"

definition demo_timedelta :: "int option \<Rightarrow> exn + string" where
  "demo_timedelta t = (case t of None \<Rightarrow> Inl TypeError | Some v \<Rightarrow> Inr (str_int v))"

section \<open>run.py: apply_migration\<close>

text \<open>
  What the command line does that can be seen from outside: lines printed with
  \<open>click.echo\<close> (to stdout, or to stderr with \<open>err=True\<close>), the questions of
  \<open>click.confirm\<close>, the calls on the transaction object, and the calls of
  \<open>table.migrate\<close>, by table name.
\<close>

datatype event =
    Echo string
  | EchoErr string
  | Confirm string
  | TrStart
  | MigrateCall string
  | TrRollback
  | TrCommit

text \<open>
  A connection of the pool, as asyncpg gives it: \<open>live\<close> is the database as this
  connection sees it, \<open>tr_saved\<close> the database as it was when the open transaction
  started. \<open>rollback\<close> puts it back, \<open>commit\<close> keeps what was done, and releasing a
  connection to the pool rolls back a transaction that is still open.
\<close>

record 'db connection =
  live :: 'db
  tr_saved :: "'db option"

definition tr_start :: "'db connection \<Rightarrow> 'db connection" where
  "tr_start c = c\<lparr>tr_saved := Some (live c)\<rparr>"

definition tr_rollback :: "'db connection \<Rightarrow> 'db connection" where
  "tr_rollback c = (case tr_saved c of None \<Rightarrow> c | Some d \<Rightarrow> c\<lparr>live := d, tr_saved := None\<rparr>)"

definition tr_commit :: "'db connection \<Rightarrow> 'db connection" where
  "tr_commit c = c\<lparr>tr_saved := None\<rparr>"

definition release :: "'db connection \<Rightarrow> 'db connection" where
  "release c = tr_rollback c"

text \<open>
  What \<open>apply_migration\<close> takes from outside run.py: whether
  \<open>Table.create_pool\<close> and \<open>importlib.import_module\<close> succeed, the tables
  \<open>Table.all_tables()\<close> yields, their \<open>__tablename__\<close>, and \<open>Table.migrate\<close>
  of \<open>cogs.utils.db\<close>. \<open>migrate env t index downgrade verbose d\<close> runs on the
  connection's database \<open>d\<close> and gives the database it leaves, with the exception it
  raised, if it raised one.
\<close>

record ('tbl, 'db) env =
  create_pool_ok :: bool
  import_ok :: bool
  all_tables :: "'tbl list"
  tablename :: "'tbl \<Rightarrow> string"
  migrate :: "'tbl \<Rightarrow> int \<Rightarrow> bool \<Rightarrow> bool \<Rightarrow> 'db \<Rightarrow> exn option \<times> 'db"

text \<open>\<open>if not cog.startswith("cogs."): cog = f"cogs.{cog}"\<close>\<close>

definition cog_module :: "string \<Rightarrow> string" where
  "cog_module cog = (if take 5 cog = ''cogs.'' then cog else ''cogs.'' @ cog)"

text \<open>
  The \<open>for table in Table.all_tables()\<close> loop with its \<open>else\<close> branch. Only a
  \<open>RuntimeError\<close> is caught; another exception leaves the loop and the function. The
  result is the exception that got out (if any), the connection, and the events in order.
\<close>

fun migrate_loop ::
  "('tbl, 'db) env \<Rightarrow> int \<Rightarrow> bool \<Rightarrow> bool \<Rightarrow> 'tbl list \<Rightarrow> 'db connection
     \<Rightarrow> exn option \<times> 'db connection \<times> event list" where
  "migrate_loop env index downgrade quiet [] c = (None, tr_commit c, [TrCommit])"
| "migrate_loop env index downgrade quiet (t # ts) c =
     (case migrate env t index downgrade (\<not> quiet) (live c) of
        (None, d) \<Rightarrow>
          (case migrate_loop env index downgrade quiet ts (c\<lparr>live := d\<rparr>) of
             (r, c', l) \<Rightarrow> (r, c', MigrateCall (tablename env t) # l))
      | (Some x, d) \<Rightarrow>
          (case x of
             RuntimeError e \<Rightarrow>
               (None, tr_rollback (c\<lparr>live := d\<rparr>),
                [MigrateCall (tablename env t),
                 EchoErr (''Could not migrate '' @ tablename env t @ '': '' @ e),
                 TrRollback])
           | _ \<Rightarrow> (Some x, c\<lparr>live := d\<rparr>, [MigrateCall (tablename env t)])))"

text \<open>
  \<open>apply_migration(cog, quiet, index, downgrade=...)\<close> on the database \<open>db\<close>: the
  exception that got out (if any), the database afterwards, and the events. The
  traceback that the two early messages end with is left out of their text.
\<close>

definition apply_migration ::
  "('tbl, 'db) env \<Rightarrow> string \<Rightarrow> bool \<Rightarrow> int \<Rightarrow> bool \<Rightarrow> 'db
     \<Rightarrow> exn option \<times> 'db \<times> event list" where
  "apply_migration env cog quiet index downgrade db =
     (if \<not> create_pool_ok env then
        (None, db, [EchoErr ''Could not create PostgreSQL connection pool.''])
      else if \<not> import_ok env then
        (None, db, [EchoErr (''Could not load '' @ cog_module cog @ ''.'')])
      else
        (case migrate_loop env index downgrade quiet (all_tables env)
                (tr_start \<lparr>live = db, tr_saved = None\<rparr>) of
           (r, c, l) \<Rightarrow> (r, live (release c), TrStart # l)))"

text \<open>The subcommands \<open>upgrade\<close> and \<open>downgrade\<close>; \<open>--index\<close> defaults to -1.\<close>

definition upgrade ::
  "('tbl, 'db) env \<Rightarrow> string \<Rightarrow> bool \<Rightarrow> int option \<Rightarrow> 'db \<Rightarrow> exn option \<times> 'db \<times> event list" where
  "upgrade env cog quiet index_opt db =
     apply_migration env cog quiet (case index_opt of None \<Rightarrow> - 1 | Some i \<Rightarrow> i) False db"

definition downgrade ::
  "('tbl, 'db) env \<Rightarrow> string \<Rightarrow> bool \<Rightarrow> int option \<Rightarrow> 'db \<Rightarrow> exn option \<times> 'db \<times> event list" where
  "downgrade env cog quiet index_opt db =
     apply_migration env cog quiet (case index_opt of None \<Rightarrow> - 1 | Some i \<Rightarrow> i) True db"

text \<open>
  A batch of three tables over a database that holds each table's applied index. The
  migrate of this example sets the index of a table; on \<open>punishment_config\<close> it
  raises after it has changed the index, so \<open>vc_channel_config\<close> is never reached.
\<close>

definition demo_migrate ::
  "string \<Rightarrow> int \<Rightarrow> bool \<Rightarrow> bool \<Rightarrow> (string \<times> int) list \<Rightarrow> exn option \<times> (string \<times> int) list" where
  "demo_migrate t index dg verbose d =
     (if t = ''punishment_config''
      then (Some (RuntimeError ''no such step''), AList.update t index d)
      else (None, AList.update t index d))"

definition demo_env :: "(string, (string \<times> int) list) env" where
  "demo_env =
     \<lparr>create_pool_ok = True, import_ok = True,
      all_tables = [''guild_config'', ''punishment_config'', ''vc_channel_config''],
      tablename = (\<lambda>t. t), migrate = demo_migrate\<rparr>"

definition demo_db :: "(string \<times> int) list" where
  "demo_db = [(''guild_config'', 0), (''punishment_config'', 0), (''vc_channel_config'', 0)]"

text \<open>
  Used to state the properties of a batch: \<open>run_all env index dg verbose ts d\<close>
  is the database that the migrate calls of the tables \<open>ts\<close>, made in order from
  \<open>d\<close>, leave when every one of them returns, and \<open>None\<close> when one of them raises.
\<close>

fun run_all ::
  "('tbl, 'db) env \<Rightarrow> int \<Rightarrow> bool \<Rightarrow> bool \<Rightarrow> 'tbl list \<Rightarrow> 'db \<Rightarrow> 'db option" where
  "run_all env index dg verbose [] d = Some d"
| "run_all env index dg verbose (t # ts) d =
     (case migrate env t index dg verbose d of
        (None, d') \<Rightarrow> run_all env index dg verbose ts d'
      | (Some x, d') \<Rightarrow> None)"

section \<open>run.py: work, of the migrate subcommand\<close>

text \<open>How a call ends: it returns, \<open>sys.exit\<close> or \<open>click.Abort\<close> ends the process, or
  an exception that is not caught gets out.\<close>

datatype ending = Returned | SystemExit int | Abort | Raised exn

definition could_not_migrate :: "string \<Rightarrow> string \<Rightarrow> string" where
  "could_not_migrate name e = ''Could not migrate '' @ name @ '': '' @ e"

definition migrated_message :: "string \<Rightarrow> bool \<Rightarrow> string" where
  "migrated_message name actually_migrated =
     (if actually_migrated then ''Successfully updated migrations for '' @ name @ ''.''
      else ''Found no changes for '' @ name @ ''.'')"

text \<open>
  \<open>work(table, invoked=...)\<close> on the state \<open>st\<close> that \<open>write_migration\<close> and the
  \<open>init\<close> subcommand read and write. From outside come \<open>write_migration\<close> (of
  \<open>cogs.utils.db\<close>; it returns whether it wrote a step, or raises), the table's
  \<open>__tablename__\<close>, the operator's answer to the question, and what invoking \<open>init\<close>
  prints and does to the state. Only a \<open>RuntimeError\<close> is caught. After a retry
  \<open>sys.exit(-1)\<close> is reached also when the retry returned.
\<close>

function work ::
  "('tbl \<Rightarrow> 'st \<Rightarrow> (exn + bool) \<times> 'st) \<Rightarrow> ('tbl \<Rightarrow> string) \<Rightarrow> bool
     \<Rightarrow> ('st \<Rightarrow> event list \<times> 'st) \<Rightarrow> bool \<Rightarrow> 'tbl \<Rightarrow> 'st
     \<Rightarrow> ending \<times> 'st \<times> event list" where
  "work write_migration name_of confirm invoke_init invoked table st =
     (case write_migration table st of
        (Inr actually_migrated, st1) \<Rightarrow>
          (Returned, st1, [Echo (migrated_message (name_of table) actually_migrated)])
      | (Inl x, st1) \<Rightarrow>
          (case x of
             RuntimeError e \<Rightarrow>
               if \<not> invoked then
                 if \<not> confirm then
                   (Abort, st1,
                    [EchoErr (could_not_migrate (name_of table) e),
                     Confirm ''do you want to create the table?''])
                 else
                   (case invoke_init st1 of
                      (printed, st2) \<Rightarrow>
                        (case work write_migration name_of confirm invoke_init True table st2 of
                           (how, st3, l) \<Rightarrow>
                             ((case how of Returned \<Rightarrow> SystemExit (- 1) | _ \<Rightarrow> how), st3,
                              [EchoErr (could_not_migrate (name_of table) e),
                               Confirm ''do you want to create the table?''] @ printed @ l)))
               else (SystemExit (- 1), st1, [EchoErr (could_not_migrate (name_of table) e)])
           | _ \<Rightarrow> (Raised x, st1, [])))"
  by pat_completeness auto
termination
  by (relation "measure (\<lambda>(wm, nm, cf, ini, invoked, t, st). if invoked then 0 else 1)") auto

declare work.simps [simp del]

section \<open>cogs/configuring.py: RoleRange.convert\<close>

record role =
  role_id :: int
  role_name :: string
  position :: int

text \<open>
  \<open>argument.partition("..")\<close>: the text before the first \<open>..\<close>, the separator, and
  the text after it; without a separator the whole argument and two empty strings.
\<close>

fun partition_dots :: "string \<Rightarrow> string \<times> string \<times> string" where
  "partition_dots [] = ([], [], [])"
| "partition_dots (c # cs) =
     (if c = CHR ''.'' \<and> take 1 cs = ''.'' then ([], ''..'', drop 1 cs)
      else (case partition_dots cs of (a, s, b) \<Rightarrow> (c # a, s, b)))"

text \<open>
  A Python slice \<open>xs[a:b]\<close>: a negative bound counts from the end, and both bounds are
  cut to the list.
\<close>

definition py_slice_bound :: "nat \<Rightarrow> int \<Rightarrow> nat" where
  "py_slice_bound n i = (if i < 0 then nat (max 0 (int n + i)) else min n (nat i))"

definition py_slice :: "'a list \<Rightarrow> int \<Rightarrow> int \<Rightarrow> 'a list" where
  "py_slice xs a b =
     (let lo = py_slice_bound (length xs) a; hi = py_slice_bound (length xs) b
      in take (hi - lo) (drop lo xs))"

text \<open>
  \<open>_try_convert_role\<close>: the role that discord.py's \<open>RoleConverter\<close> finds, \<open>None\<close>
  when it raises \<open>BadArgument\<close>; any other exception gets out. The converter of the
  invoking context is the parameter \<open>role_converter\<close>.
\<close>

definition try_convert_role :: "(string \<Rightarrow> exn + role) \<Rightarrow> string \<Rightarrow> exn + role option" where
  "try_convert_role role_converter arg =
     (case role_converter arg of
        Inr r \<Rightarrow> Inr (Some r)
      | Inl x \<Rightarrow> (case x of BadArgument m \<Rightarrow> Inr None | _ \<Rightarrow> Inl x))"

text \<open>
  The \<open>try\<close> block of \<open>convert\<close> and its \<open>except ValueError\<close> branch. \<open>py_int\<close> is
  Python's \<open>int\<close> on strings, \<open>None\<close> where it raises \<open>ValueError\<close>. When either
  endpoint is not an integer, both are converted as roles.
\<close>

definition endpoint_positions ::
  "(string \<Rightarrow> int option) \<Rightarrow> (string \<Rightarrow> exn + role) \<Rightarrow> string \<Rightarrow> string \<Rightarrow> exn + int \<times> int" where
  "endpoint_positions py_int role_converter first second =
     (let by_roles =
        (case try_convert_role role_converter first of
           Inl x \<Rightarrow> Inl x
         | Inr None \<Rightarrow> Inl (BadArgument (''Invalid first argument '' @ first))
         | Inr (Some r1) \<Rightarrow>
             (case try_convert_role role_converter second of
                Inl x \<Rightarrow> Inl x
              | Inr None \<Rightarrow> Inl (BadArgument (''Invalid second argument '' @ second))
              | Inr (Some r2) \<Rightarrow> Inr (position r1, position r2)))
      in case py_int first of
           None \<Rightarrow> by_roles
         | Some first_pos \<Rightarrow>
             (case py_int second of
                None \<Rightarrow> by_roles
              | Some second_pos \<Rightarrow> Inr (first_pos, second_pos)))"

definition hierarchy_message :: "int \<Rightarrow> string" where
  "hierarchy_message bad_pos =
     ''Bad range provided. I cannot assign role at idx '' @ str_int bad_pos
       @ '' due to role hierarchy conflicts.''"

text \<open>
  \<open>RoleRange.convert\<close>, in a guild with the roles \<open>guild_roles\<close> where the bot's top
  role has position \<open>bot_highest\<close>.
\<close>

definition convert ::
  "(string \<Rightarrow> int option) \<Rightarrow> (string \<Rightarrow> exn + role) \<Rightarrow> role list \<Rightarrow> int \<Rightarrow> string
     \<Rightarrow> exn + role list" where
  "convert py_int role_converter guild_roles bot_highest argument =
     (case partition_dots argument of
        (first, sep, second) \<Rightarrow>
          (case endpoint_positions py_int role_converter first second of
             Inl x \<Rightarrow> Inl x
           | Inr (first_pos, second_pos) \<Rightarrow>
               if first_pos \<ge> bot_highest then Inl (BadArgument (hierarchy_message first_pos))
               else if second_pos \<ge> bot_highest then Inl (BadArgument (hierarchy_message second_pos))
               else if first_pos \<le> second_pos then
                 Inl (BadArgument
                   ''Bad range provided. Make sure that `first_role.pos > second_role.pos`.'')
               else Inr (py_slice guild_roles second_pos (first_pos + 1))))"

text \<open>
  The condition for \<open>BadArgument\<close> as the specification words it, for comparison with
  \<open>convert\<close>: an endpoint is unusable when it can be neither parsed as an integer nor
  resolved as a role; otherwise its position is the integer, or the role's position.
\<close>

definition claimed_position ::
  "(string \<Rightarrow> int option) \<Rightarrow> (string \<Rightarrow> exn + role) \<Rightarrow> string \<Rightarrow> int option" where
  "claimed_position py_int role_converter s =
     (case py_int s of
        Some i \<Rightarrow> Some i
      | None \<Rightarrow> (case role_converter s of Inr r \<Rightarrow> Some (position r) | Inl x \<Rightarrow> None))"

definition claimed_bad_argument ::
  "(string \<Rightarrow> int option) \<Rightarrow> (string \<Rightarrow> exn + role) \<Rightarrow> int \<Rightarrow> string \<Rightarrow> bool" where
  "claimed_bad_argument py_int role_converter bot_highest argument =
     (case partition_dots argument of
        (first, sep, second) \<Rightarrow>
          (case claimed_position py_int role_converter first of
             None \<Rightarrow> True
           | Some first_pos \<Rightarrow>
               (case claimed_position py_int role_converter second of
                  None \<Rightarrow> True
                | Some second_pos \<Rightarrow>
                    first_pos \<ge> bot_highest \<or> second_pos \<ge> bot_highest
                    \<or> first_pos \<le> second_pos)))"

text \<open>
  A guild of five roles, a role converter that finds a role by its name, and an integer
  parser for plain decimal numerals, to run \<open>convert\<close> on.
\<close>

definition demo_roles :: "role list" where
  "demo_roles =
     [\<lparr>role_id = 100, role_name = ''@everyone'', position = 0\<rparr>,
      \<lparr>role_id = 101, role_name = ''Member'', position = 1\<rparr>,
      \<lparr>role_id = 102, role_name = ''Regular'', position = 2\<rparr>,
      \<lparr>role_id = 103, role_name = ''Mod'', position = 3\<rparr>,
      \<lparr>role_id = 104, role_name = ''Bot'', position = 4\<rparr>]"

definition demo_role_converter :: "string \<Rightarrow> exn + role" where
  "demo_role_converter s =
     (case find (\<lambda>r. role_name r = s) demo_roles of
        None \<Rightarrow> Inl (BadArgument (''Role not found: '' @ s))
      | Some r \<Rightarrow> Inr r)"

definition digit_value :: "char \<Rightarrow> nat option" where
  "digit_value c =
     (if c \<in> set ''0123456789'' then Some (of_char c - 48) else None)"

fun decimal_value :: "nat \<Rightarrow> string \<Rightarrow> nat option" where
  "decimal_value acc [] = Some acc"
| "decimal_value acc (c # cs) =
     (case digit_value c of None \<Rightarrow> None | Some d \<Rightarrow> decimal_value (10 * acc + d) cs)"

definition demo_int :: "string \<Rightarrow> int option" where
  "demo_int s =
     (case s of
        [] \<Rightarrow> None
      | c # cs \<Rightarrow>
          if c = CHR ''-'' then (if cs = [] then None else map_option (\<lambda>n. - int n) (decimal_value 0 cs))
          else map_option int (decimal_value 0 s))"

section \<open>cogs/configuring.py: the role pool commands\<close>

text \<open>
  A row of the \<open>roles\<close> table: \<open>(guild_id, role_id, category)\<close>. The table is the
  list of its rows; its declaration is not part of configuring.py, and no constraint of
  the table is modelled.
\<close>

type_synonym roles_row = "int \<times> int \<times> string option"

definition row_key :: "roles_row \<Rightarrow> int \<times> int" where
  "row_key row = (case row of (guild_id, rid, category) \<Rightarrow> (guild_id, rid))"

text \<open>
  \<open>_bulk_add_roles\<close>, inside its transaction: the role ids stored for the guild are
  read, the roles whose id is among them are left out, and the rest is copied into the
  table. (The cache of the Community cog that is invalidated afterwards is not modelled.)
\<close>

definition bulk_add_roles ::
  "roles_row list \<Rightarrow> int \<Rightarrow> role list \<Rightarrow> string option \<Rightarrow> roles_row list" where
  "bulk_add_roles table guild_id roles category =
     (let records = map (\<lambda>row. fst (snd row)) (filter (\<lambda>row. fst row = guild_id) table);
          current_roles = set records;
          to_insert = map (\<lambda>r. (guild_id, role_id r, category))
                        (filter (\<lambda>r. role_id r \<notin> current_roles) roles)
      in table @ to_insert)"

text \<open>
  The commands \<open>roles enable\<close> and \<open>roles batchadd\<close>: the table afterwards and the
  message sent. \<open>str_lower\<close> is Python's \<open>str.lower\<close>; the role range of
  \<open>batchadd\<close> is what \<open>RoleRange.convert\<close> returned.
\<close>

definition roles_enable ::
  "(string \<Rightarrow> string) \<Rightarrow> roles_row list \<Rightarrow> int \<Rightarrow> string option \<Rightarrow> role list
     \<Rightarrow> roles_row list \<times> string" where
  "roles_enable str_lower table guild_id category roles =
     (if roles = [] then (table, ''Missing roles to add.'')
      else
        (let category' =
           (case category of
              None \<Rightarrow> None
            | Some c \<Rightarrow> if c = [] then Some c else Some (str_lower c))
         in (bulk_add_roles table guild_id roles category', ''Updated rolepool.'')))"

definition roles_add_batch ::
  "roles_row list \<Rightarrow> int \<Rightarrow> string \<Rightarrow> role list \<Rightarrow> roles_row list \<times> string" where
  "roles_add_batch table guild_id category role_range =
     (bulk_add_roles table guild_id role_range (Some category), ''Updated rolepool.'')"

section \<open>The schema engine of cogs.utils.db, from the specification\<close>

text \<open>
  Modelled from the spec: the column and table model of \<open>cogs.utils.db\<close> (section 3),
  which is not among the source files. A column has a semantic type (an integer with its
  "wide" flag, a string, a boolean, a serial), a nullability flag, an optional default and
  a primary-key flag.
\<close>

datatype column_type = Integer bool | String | Boolean | Serial

datatype default_value = DefaultInt int | DefaultStr string | DefaultBool bool

record column =
  col_type :: column_type
  nullable :: bool
  default_of :: "default_value option"
  primary_key :: bool

text \<open>
  Modelled from the spec: the three column constructors that configuring.py calls.
  \<open>Column\<close> takes the type and the flags; \<open>PrimaryKeyColumn\<close> is the explicit primary
  key column; \<open>DiscordIDColumn\<close> is the wide integer for an identifier from outside, and
  no primary key.
\<close>

definition Column :: "column_type \<Rightarrow> bool \<Rightarrow> default_value option \<Rightarrow> bool \<Rightarrow> column" where
  "Column ty pk dflt nul = \<lparr>col_type = ty, nullable = nul, default_of = dflt, primary_key = pk\<rparr>"

definition PrimaryKeyColumn :: column where
  "PrimaryKeyColumn = \<lparr>col_type = Serial, nullable = False, default_of = None, primary_key = True\<rparr>"

definition DiscordIDColumn :: "bool \<Rightarrow> column" where
  "DiscordIDColumn nul =
     \<lparr>col_type = Integer True, nullable = nul, default_of = None, primary_key = False\<rparr>"

text \<open>
  Modelled from the spec: a table descriptor (section 3) is a table name and an ordered
  sequence of named columns, and declaring one fails unless exactly one column is a
  primary key. The declaration takes no database and gives none back.
\<close>

record table =
  table_name :: string
  columns :: "(string \<times> column) list"

datatype declaration_error = NoPrimaryKey | SeveralPrimaryKeys

definition primary_keys :: "(string \<times> column) list \<Rightarrow> (string \<times> column) list" where
  "primary_keys cols = filter (\<lambda>nc. primary_key (snd nc)) cols"

definition declare_table :: "string \<Rightarrow> (string \<times> column) list \<Rightarrow> declaration_error + table" where
  "declare_table name cols =
     (case primary_keys cols of
        [] \<Rightarrow> Inl NoPrimaryKey
      | [pk] \<Rightarrow> Inr \<lparr>table_name = name, columns = cols\<rparr>
      | pk # pk' # pks \<Rightarrow> Inl SeveralPrimaryKeys)"

text \<open>
  The tables that configuring.py declares, column by column in the order of the class
  bodies. What the constructors do with a flag that a declaration leaves out is not in
  the source files: \<open>column_nullable\<close> stands for the nullability of a \<open>Column\<close> and
  \<open>id_nullable\<close> for that of a \<open>DiscordIDColumn\<close> declared without \<open>nullable\<close>.
\<close>

definition GuildConfig :: "bool \<Rightarrow> bool \<Rightarrow> declaration_error + table" where
  "GuildConfig column_nullable id_nullable =
     declare_table ''guild_config''
       [(''id'', Column (Integer True) True None column_nullable),
        (''modlog_channel_id'', DiscordIDColumn id_nullable),
        (''mod_channel_id'', DiscordIDColumn id_nullable),
        (''default_channel_id'', DiscordIDColumn id_nullable),
        (''greeting'', Column String False None column_nullable),
        (''is_configured'', Column Boolean False (Some (DefaultBool False)) column_nullable),
        (''tracker_channel_id'', DiscordIDColumn True),
        (''poll_channel_id'', DiscordIDColumn id_nullable)]"

definition PunishmentConfig :: "bool \<Rightarrow> bool \<Rightarrow> declaration_error + table" where
  "PunishmentConfig column_nullable id_nullable =
     declare_table ''punishment_config''
       [(''id'', Column (Integer True) True None column_nullable),
        (''jailed_role_id'', DiscordIDColumn id_nullable),
        (''shitpost_role_id'', DiscordIDColumn id_nullable),
        (''jailed_channel_id'', DiscordIDColumn id_nullable),
        (''shitpost_channel_id'', DiscordIDColumn id_nullable)]"

definition VCChannelConfig :: "bool \<Rightarrow> declaration_error + table" where
  "VCChannelConfig id_nullable =
     declare_table ''vc_channel_config''
       [(''id'', PrimaryKeyColumn),
        (''guild_id'', DiscordIDColumn id_nullable),
        (''vc_channel_id'', DiscordIDColumn id_nullable),
        (''channel_id'', DiscordIDColumn id_nullable)]"

text \<open>
  Modelled from the spec: the Schema Differ (section 4.2) of \<open>cogs.utils.db\<close>. Columns
  are matched by name. A column of the snapshot that is absent now is dropped, a column
  present now and absent from the snapshot is added, and a column present in both whose
  type, nullability or default differs is altered; drops come before adds before alters.
\<close>

datatype column_op =
    DropColumn string column
  | AddColumn string column
  | AlterColumn string column column

definition differs :: "column \<Rightarrow> column \<Rightarrow> bool" where
  "differs old new =
     (col_type old \<noteq> col_type new \<or> nullable old \<noteq> nullable new
      \<or> default_of old \<noteq> default_of new)"

definition dropped :: "(string \<times> column) list \<Rightarrow> (string \<times> column) list \<Rightarrow> column_op list" where
  "dropped now snapshot =
     map (\<lambda>nc. DropColumn (fst nc) (snd nc))
       (filter (\<lambda>nc. fst nc \<notin> set (map fst now)) snapshot)"

definition added :: "(string \<times> column) list \<Rightarrow> (string \<times> column) list \<Rightarrow> column_op list" where
  "added now snapshot =
     map (\<lambda>nc. AddColumn (fst nc) (snd nc))
       (filter (\<lambda>nc. fst nc \<notin> set (map fst snapshot)) now)"

definition altered :: "(string \<times> column) list \<Rightarrow> (string \<times> column) list \<Rightarrow> column_op list" where
  "altered now snapshot =
     concat (map (\<lambda>nc. case map_of snapshot (fst nc) of
                         None \<Rightarrow> []
                       | Some old \<Rightarrow>
                           if differs old (snd nc) then [AlterColumn (fst nc) old (snd nc)] else [])
               now)"

definition diff :: "table \<Rightarrow> (string \<times> column) list \<Rightarrow> column_op list" where
  "diff t snapshot =
     dropped (columns t) snapshot @ added (columns t) snapshot @ altered (columns t) snapshot"

text \<open>The place of an operation in the order of a step: drops, then adds, then alters.\<close>

fun op_rank :: "column_op \<Rightarrow> nat" where
  "op_rank (DropColumn n c) = 0"
| "op_rank (AddColumn n c) = 1"
| "op_rank (AlterColumn n old new) = 2"

text \<open>
  Modelled from the spec: a migration step and the Migration Writer (sections 3 and 4.3)
  of \<open>cogs.utils.db\<close>. The history store holds each table's steps in order. Without a
  step for the table \<open>write_migration\<close> fails and writes nothing; the failure is the
  \<open>RuntimeError\<close> that \<open>work\<close> of run.py catches. With an empty diff against the
  latest snapshot it returns \<open>False\<close>; otherwise it appends one step with the next
  index, the diff, its inverse in reverse order, and the current columns, and returns
  \<open>True\<close>.
\<close>

record migration_step =
  step_index :: nat
  forward :: "column_op list"
  reverse :: "column_op list"
  snapshot :: "(string \<times> column) list"

type_synonym history = "string \<Rightarrow> migration_step list"

fun inverse_op :: "column_op \<Rightarrow> column_op" where
  "inverse_op (DropColumn n c) = AddColumn n c"
| "inverse_op (AddColumn n c) = DropColumn n c"
| "inverse_op (AlterColumn n old new) = AlterColumn n new old"

definition write_migration :: "table \<Rightarrow> history \<Rightarrow> (exn + bool) \<times> history" where
  "write_migration t h =
     (case h (table_name t) of
        [] \<Rightarrow> (Inl (RuntimeError ''no baseline''), h)
      | s # ss \<Rightarrow>
          (let latest = last (s # ss); ops = diff t (snapshot latest)
           in if ops = [] then (Inr False, h)
              else (Inr True,
                    h(table_name t :=
                        (s # ss) @
                          [\<lparr>step_index = Suc (step_index latest), forward = ops,
                            reverse = rev (map inverse_op ops), snapshot = columns t\<rparr>]))))"

text \<open>
  The table \<open>widgets\<close> of the specification's scenario, before and after the column
  \<open>enabled\<close> is declared, an older column list of it (\<open>name\<close> not nullable, and a
  column \<open>legacy\<close>), the history after \<open>create\<close> recorded step 0, and an \<open>init\<close>
  that prints one line.
\<close>

definition widgets_columns :: "(string \<times> column) list" where
  "widgets_columns =
     [(''id'', Column (Integer True) True None False), (''name'', Column String False None True)]"

definition widgets :: table where
  "widgets = \<lparr>table_name = ''widgets'', columns = widgets_columns\<rparr>"

definition widgets_enabled :: table where
  "widgets_enabled =
     \<lparr>table_name = ''widgets'',
      columns = widgets_columns @
        [(''enabled'', Column Boolean False (Some (DefaultBool False)) True)]\<rparr>"

definition widgets_legacy_columns :: "(string \<times> column) list" where
  "widgets_legacy_columns =
     [(''id'', Column (Integer True) True None False),
      (''name'', Column String False None False),
      (''legacy'', Column (Integer False) False (Some (DefaultInt 0)) True)]"

definition demo_history :: history where
  "demo_history =
     (\<lambda>name. if name = ''widgets''
        then [\<lparr>step_index = 0, forward = [], reverse = [], snapshot = widgets_columns\<rparr>]
        else [])"

definition demo_init :: "history \<Rightarrow> event list \<times> history" where
  "demo_init h = ([Echo ''[cogs.widgets] No work needed for widgets.''], h)"

section \<open>Importing a cog that declares tables\<close>

text \<open>
  Modelled from the spec: a table is declared, and a malformed declaration rejected, when
  its class statement runs (sections 3 and 7), which is while the cog's module is
  imported. The class statements of a module run in order; the first rejected declaration
  raises out of the import, and otherwise the declared tables are what
  \<open>Table.all_tables()\<close> yields afterwards.
\<close>

fun import_tables :: "(declaration_error + table) list \<Rightarrow> declaration_error + table list" where
  "import_tables [] = Inr []"
| "import_tables (d # ds) =
     (case d of
        Inl e \<Rightarrow> Inl e
      | Inr t \<Rightarrow> (case import_tables ds of Inl e \<Rightarrow> Inl e | Inr ts \<Rightarrow> Inr (t # ts)))"

text \<open>The class statements of cogs/configuring.py that declare a table, in order.\<close>

definition configuring_cog :: "bool \<Rightarrow> bool \<Rightarrow> (declaration_error + table) list" where
  "configuring_cog column_nullable id_nullable =
     [GuildConfig column_nullable id_nullable,
      PunishmentConfig column_nullable id_nullable,
      VCChannelConfig id_nullable]"

text \<open>
  What \<open>apply_migration\<close> of run.py meets when the cog it imports consists of the given
  declarations: \<open>importlib.import_module\<close> succeeds if and only if every declaration is
  accepted, and the tables are the declared ones. Whether the pool can be created, and
  \<open>Table.migrate\<close>, stay parameters.
\<close>

definition cog_env ::
  "bool \<Rightarrow> (table \<Rightarrow> int \<Rightarrow> bool \<Rightarrow> bool \<Rightarrow> 'db \<Rightarrow> exn option \<times> 'db)
     \<Rightarrow> (declaration_error + table) list \<Rightarrow> (table, 'db) env" where
  "cog_env pool_ok mig declarations =
     \<lparr>create_pool_ok = pool_ok,
      import_ok = (case import_tables declarations of Inl e \<Rightarrow> False | Inr ts \<Rightarrow> True),
      all_tables = (case import_tables declarations of Inl e \<Rightarrow> [] | Inr ts \<Rightarrow> ts),
      tablename = table_name,
      migrate = mig\<rparr>"

text \<open>
  A cog with one table that has no primary key column, a cog with one that has two, and a
  \<open>migrate\<close> that returns at once.
\<close>

definition unkeyed_cog :: "(declaration_error + table) list" where
  "unkeyed_cog = [declare_table ''unkeyed'' [(''guild_id'', DiscordIDColumn False)]]"

definition twice_keyed_cog :: "(declaration_error + table) list" where
  "twice_keyed_cog =
     [declare_table ''twice'' [(''id'', PrimaryKeyColumn), (''other'', PrimaryKeyColumn)]]"

definition idle_migrate ::
  "table \<Rightarrow> int \<Rightarrow> bool \<Rightarrow> bool \<Rightarrow> (string \<times> int) list \<Rightarrow> exn option \<times> (string \<times> int) list" where
  "idle_migrate t index dg verbose d = (None, d)"

section \<open>Properties of newusers\<close>

lemma effective_count_range: "5 \<le> effective_count cnt \<and> effective_count cnt \<le> 25"
  by (simp add: effective_count_def)

lemma sorted_by_joined_desc_Inr:
  assumes "sorted_by_joined_desc ms = Inr s"
  shows "mset s = mset ms"
    and "sorted_wrt (\<lambda>a b. joined_key b \<le> joined_key a) s"
proof -
  from assms have s: "s = rev (sort_key joined_key (rev ms))"
    by (simp add: sorted_by_joined_desc_def split: if_splits)
  show "mset s = mset ms" by (simp add: s)
  have "sorted (map joined_key (sort_key joined_key (rev ms)))" by simp
  then have "sorted_wrt (\<lambda>a b. joined_key a \<le> joined_key b) (sort_key joined_key (rev ms))"
    by (simp add: sorted_wrt_map)
  then show "sorted_wrt (\<lambda>a b. joined_key b \<le> joined_key a) s"
    by (simp add: s sorted_wrt_rev)
qed

lemma add_member_fields_Inr:
  "add_member_fields ht ms e = Inr e' \<Longrightarrow>
     \<exists>fs. embed_fields e' = embed_fields e @ fs \<and> list_all2 (\<lambda>f m. fst f = field_name m) fs ms"
proof (induction ms arbitrary: e)
  case Nil
  then show ?case by simp
next
  case (Cons m ms)
  from Cons.prems obtain j c where
    rec: "add_member_fields ht ms
            (add_field e (field_name m) (''joined '' @ j @ '', created '' @ c) False) = Inr e'"
    by (auto split: sum.splits)
  from Cons.IH [OF rec] obtain fs where
    fs: "embed_fields e' = embed_fields e @ (field_name m, ''joined '' @ j @ '', created '' @ c, False) # fs"
      "list_all2 (\<lambda>f m. fst f = field_name m) fs ms"
    by (auto simp: add_field_def)
  then show ?case by auto
qed

lemma add_member_fields_total:
  "\<forall>m \<in> set ms. \<exists>s. ht (joined_at m) = Inr s \<Longrightarrow> \<forall>t. \<exists>s. ht (Some t) = Inr s \<Longrightarrow>
     \<exists>e'. add_member_fields ht ms e = Inr e'"
proof (induction ms arbitrary: e)
  case Nil
  then show ?case by simp
next
  case (Cons m ms)
  from Cons.prems obtain j where j: "ht (joined_at m) = Inr j" by auto
  from Cons.prems obtain c where c: "ht (Some (created_at m)) = Inr c" by blast
  from Cons.IH [of "add_field e (field_name m) (''joined '' @ j @ '', created '' @ c) False"]
    Cons.prems
  show ?case by (simp add: j c)
qed

text \<open>
  C8. For every integer count \<open>cnt\<close> the command works with \<open>max (min cnt 25) 5\<close>, which
  lies between 5 and 25. An embed it sends has one field per listed member and at most 25
  fields; the listed members are the first \<open>effective_count cnt\<close> of the guild's
  members in descending order of join time, so none of the members left out joined later
  than a listed one. When every member has a join time and \<open>human_timedelta\<close> prints every
  time, the command does send an embed.
\<close>

theorem newusers_lists_newest:
  "effective_count cnt = max (min cnt 25) 5
   \<and> 5 \<le> effective_count cnt \<and> effective_count cnt \<le> 25
   \<and> (newusers ht ms cnt = Inr e \<longrightarrow>
        (\<exists>listed rest.
           mset (listed @ rest) = mset ms
           \<and> length listed = min (nat (effective_count cnt)) (length ms)
           \<and> list_all2 (\<lambda>f m. fst f = field_name m) (embed_fields e) listed
           \<and> length (embed_fields e) \<le> 25
           \<and> sorted_wrt (\<lambda>a b. joined_key b \<le> joined_key a) listed
           \<and> (\<forall>a \<in> set listed. \<forall>b \<in> set rest. joined_key b \<le> joined_key a)))
   \<and> ((\<forall>m \<in> set ms. joined_at m \<noteq> None) \<and> (\<forall>t. \<exists>s. ht (Some t) = Inr s) \<longrightarrow>
        (\<exists>e'. newusers ht ms cnt = Inr e'))"
proof (intro conjI impI)
  show "effective_count cnt = max (min cnt 25) 5"
    by (simp add: effective_count_def)
  show "5 \<le> effective_count cnt" "effective_count cnt \<le> 25"
    using effective_count_range by simp_all
next
  assume sent: "newusers ht ms cnt = Inr e"
  define n where "n = nat (effective_count cnt)"
  from sent obtain s where
    s: "sorted_by_joined_desc ms = Inr s" and
    e: "add_member_fields ht (take n s)
          \<lparr>title = ''New Members'', colour = ''green'', embed_fields = []\<rparr> = Inr e"
    by (auto simp: newusers_def n_def split: sum.splits)
  have perm: "mset s = mset ms" and desc: "sorted_wrt (\<lambda>a b. joined_key b \<le> joined_key a) s"
    using sorted_by_joined_desc_Inr [OF s] by simp_all
  have len_s: "length s = length ms"
    using perm by (metis size_mset)
  from add_member_fields_Inr [OF e]
  have fs: "list_all2 (\<lambda>f m. fst f = field_name m) (embed_fields e) (take n s)"
    by simp
  have n25: "n \<le> 25"
    using effective_count_range [of cnt] by (auto simp: n_def)
  have "length (embed_fields e) = length (take n s)"
    using fs by (rule list_all2_lengthD)
  then have len25: "length (embed_fields e) \<le> 25"
    using n25 by simp
  have split: "sorted_wrt (\<lambda>a b. joined_key b \<le> joined_key a) (take n s @ drop n s)"
    using desc by simp
  have "mset (take n s @ drop n s) = mset ms"
    using perm by simp
  moreover have "length (take n s) = min (nat (effective_count cnt)) (length ms)"
    by (simp add: n_def len_s min.commute)
  moreover have "sorted_wrt (\<lambda>a b. joined_key b \<le> joined_key a) (take n s)"
    using split unfolding sorted_wrt_append by blast
  moreover have "\<forall>a \<in> set (take n s). \<forall>b \<in> set (drop n s). joined_key b \<le> joined_key a"
    using split unfolding sorted_wrt_append by blast
  ultimately show "\<exists>listed rest.
           mset (listed @ rest) = mset ms
           \<and> length listed = min (nat (effective_count cnt)) (length ms)
           \<and> list_all2 (\<lambda>f m. fst f = field_name m) (embed_fields e) listed
           \<and> length (embed_fields e) \<le> 25
           \<and> sorted_wrt (\<lambda>a b. joined_key b \<le> joined_key a) listed
           \<and> (\<forall>a \<in> set listed. \<forall>b \<in> set rest. joined_key b \<le> joined_key a)"
    using fs len25 by blast
next
  assume ok: "(\<forall>m \<in> set ms. joined_at m \<noteq> None) \<and> (\<forall>t. \<exists>s. ht (Some t) = Inr s)"
  then have no_none: "None \<notin> set (map joined_at ms)"
    by auto
  then have s: "sorted_by_joined_desc ms = Inr (rev (sort_key joined_key (rev ms)))"
    by (simp add: sorted_by_joined_desc_def)
  define listed where
    "listed = take (nat (effective_count cnt)) (rev (sort_key joined_key (rev ms)))"
  have "set listed \<subseteq> set ms"
    unfolding listed_def using set_take_subset [of "nat (effective_count cnt)"
        "rev (sort_key joined_key (rev ms))"] by simp
  with ok have "\<forall>m \<in> set listed. \<exists>s. ht (joined_at m) = Inr s"
    by (metis not_None_eq subsetD)
  from add_member_fields_total [OF this] ok
  obtain e' where "add_member_fields ht listed
      \<lparr>title = ''New Members'', colour = ''green'', embed_fields = []\<rparr> = Inr e'"
    by blast
  then show "\<exists>e'. newusers ht ms cnt = Inr e'"
    by (simp add: newusers_def s listed_def)
qed

theorem newusers_lists_newest_witness:
  "effective_count 100 = 25
   \<and> None \<notin> set (map joined_at demo_members)
   \<and> (\<forall>t. \<exists>s. demo_timedelta (Some t) = Inr s)
   \<and> (\<exists>e. newusers demo_timedelta demo_members 100 = Inr e
        \<and> map fst (embed_fields e) = [''bob#0002 (ID: 2)'', ''ann#0001 (ID: 1)'', ''cyd#0003 (ID: 3)''])"
proof -
  have h1: "\<forall>m \<in> set demo_members. joined_at m \<noteq> None"
    by (simp add: demo_members_def)
  have h2: "\<forall>t. \<exists>s. demo_timedelta (Some t) = Inr s"
    by (simp add: demo_timedelta_def)
  from newusers_lists_newest [of 100 demo_timedelta demo_members] h1 h2
  obtain e where e: "newusers demo_timedelta demo_members 100 = Inr e"
    by blast
  have "newusers demo_timedelta demo_members 100 =
      Inr \<lparr>title = ''New Members'', colour = ''green'',
           embed_fields = [(''bob#0002 (ID: 2)'', ''joined 50, created 5'', False),
                     (''ann#0001 (ID: 1)'', ''joined 30, created 3'', False),
                     (''cyd#0003 (ID: 3)'', ''joined 30, created 4'', False)]\<rparr>"
    by (simp add: newusers_def effective_count_def sorted_by_joined_desc_def demo_members_def
        demo_timedelta_def joined_key_def add_field_def field_name_def str_int_def digit_char_def)
  with e have "map fst (embed_fields e) =
      [''bob#0002 (ID: 2)'', ''ann#0001 (ID: 1)'', ''cyd#0003 (ID: 3)'']"
    by auto
  moreover have "None \<notin> set (map joined_at demo_members)"
    by (simp add: demo_members_def)
  ultimately show ?thesis
    using e h2 by (auto simp: effective_count_def)
qed

section \<open>Properties of apply_migration\<close>

lemma migrate_loop_all_return:
  "run_all env i dg (\<not> q) ts (live c) = Some d \<Longrightarrow>
     migrate_loop env i dg q ts c =
       (None, tr_commit (c\<lparr>live := d\<rparr>), map (MigrateCall \<circ> tablename env) ts @ [TrCommit])"
proof (induction ts arbitrary: c)
  case Nil
  then have "d = live c" by simp
  then show ?case by simp
next
  case (Cons t ts)
  from Cons.prems obtain d1 where
    m: "migrate env t i dg (\<not> q) (live c) = (None, d1)" and
    r: "run_all env i dg (\<not> q) ts d1 = Some d"
    by (auto split: prod.splits option.splits)
  from Cons.IH [of "c\<lparr>live := d1\<rparr>"] r
  show ?case by (simp add: m)
qed

lemma migrate_loop_first_raise:
  "k < length ts \<Longrightarrow> run_all env i dg (\<not> q) (take k ts) (live c) = Some dk \<Longrightarrow>
   migrate env (ts ! k) i dg (\<not> q) dk = (Some x, d') \<Longrightarrow>
     migrate_loop env i dg q ts c =
       (case x of
          RuntimeError e \<Rightarrow>
            (None, tr_rollback (c\<lparr>live := d'\<rparr>),
             map (MigrateCall \<circ> tablename env) (take (Suc k) ts) @
               [EchoErr (''Could not migrate '' @ tablename env (ts ! k) @ '': '' @ e), TrRollback])
        | _ \<Rightarrow> (Some x, c\<lparr>live := d'\<rparr>, map (MigrateCall \<circ> tablename env) (take (Suc k) ts)))"
proof (induction ts arbitrary: c k)
  case Nil
  then show ?case by simp
next
  case (Cons t ts)
  show ?case
  proof (cases k)
    case 0
    with Cons.prems show ?thesis
      by (cases x) simp_all
  next
    case (Suc k')
    with Cons.prems obtain d1 where
      m: "migrate env t i dg (\<not> q) (live c) = (None, d1)" and
      r: "run_all env i dg (\<not> q) (take k' ts) d1 = Some dk"
      by (auto split: prod.splits option.splits)
    from Cons.prems Suc have k': "k' < length ts" and x: "migrate env (ts ! k') i dg (\<not> q) dk = (Some x, d')"
      by simp_all
    from Cons.IH [of k' "c\<lparr>live := d1\<rparr>"] k' r x
    show ?thesis
      by (cases x) (simp_all add: m Suc)
  qed
qed

lemma run_all_None:
  "run_all env i dg v ts d = None \<Longrightarrow>
     \<exists>k dk x d'. k < length ts \<and> run_all env i dg v (take k ts) d = Some dk
        \<and> migrate env (ts ! k) i dg v dk = (Some x, d')"
proof (induction ts arbitrary: d)
  case Nil
  then show ?case by simp
next
  case (Cons t ts)
  show ?case
  proof (cases "migrate env t i dg v d")
    case (Pair o1 d1)
    show ?thesis
    proof (cases o1)
      case None
      with Pair Cons.prems have "run_all env i dg v ts d1 = None" by simp
      from Cons.IH [OF this] obtain k dk x d' where
        "k < length ts" "run_all env i dg v (take k ts) d1 = Some dk"
        "migrate env (ts ! k) i dg v dk = (Some x, d')" by blast
      then have "Suc k < length (t # ts) \<and> run_all env i dg v (take (Suc k) (t # ts)) d = Some dk
          \<and> migrate env ((t # ts) ! Suc k) i dg v dk = (Some x, d')"
        using Pair None by simp
      then show ?thesis by blast
    next
      case (Some x)
      with Pair have "0 < length (t # ts) \<and> run_all env i dg v (take 0 (t # ts)) d = Some d
          \<and> migrate env ((t # ts) ! 0) i dg v d = (Some x, d1)"
        by simp
      then show ?thesis by blast
    qed
  qed
qed


lemma apply_migration_all_return:
  assumes "create_pool_ok env" "import_ok env"
    and "run_all env i dg (\<not> q) (all_tables env) db = Some d"
  shows "apply_migration env cog q i dg db =
           (None, d, TrStart # map (MigrateCall \<circ> tablename env) (all_tables env) @ [TrCommit])"
proof -
  have "run_all env i dg (\<not> q) (all_tables env) (live (tr_start \<lparr>live = db, tr_saved = None\<rparr>)) = Some d"
    using assms(3) by (simp add: tr_start_def)
  from migrate_loop_all_return [OF this] assms(1,2)
  show ?thesis
    by (simp add: apply_migration_def release_def tr_rollback_def tr_commit_def tr_start_def)
qed

lemma apply_migration_first_raise:
  assumes "create_pool_ok env" "import_ok env"
    and "k < length (all_tables env)"
    and "run_all env i dg (\<not> q) (take k (all_tables env)) db = Some dk"
    and "migrate env (all_tables env ! k) i dg (\<not> q) dk = (Some x, d')"
  shows "apply_migration env cog q i dg db =
           (case x of
              RuntimeError e \<Rightarrow>
                (None, db,
                 TrStart # map (MigrateCall \<circ> tablename env) (take (Suc k) (all_tables env)) @
                   [EchoErr (''Could not migrate '' @ tablename env (all_tables env ! k) @ '': '' @ e),
                    TrRollback])
            | _ \<Rightarrow>
                (Some x, db,
                 TrStart # map (MigrateCall \<circ> tablename env) (take (Suc k) (all_tables env))))"
proof -
  have "run_all env i dg (\<not> q) (take k (all_tables env))
          (live (tr_start \<lparr>live = db, tr_saved = None\<rparr>)) = Some dk"
    using assms(4) by (simp add: tr_start_def)
  from migrate_loop_first_raise [OF assms(3) this assms(5)] assms(1,2)
  show ?thesis
    by (cases x) (simp_all add: apply_migration_def release_def tr_rollback_def tr_start_def)
qed

text \<open>
  C1. When the pool and the import succeed, a batch is one transaction: it is started
  before the first \<open>migrate\<close> call, the tables are migrated in order inside it, and it
  ends with one commit, one rollback, or an exception that is not a \<open>RuntimeError\<close>
  getting out. The commit happens exactly when every table's \<open>migrate\<close> returned;
  without a commit the database is what it was before the batch. When the \<open>migrate\<close>
  of table number \<open>k\<close> is the first to raise and raises a \<open>RuntimeError\<close>, the
  message is printed, the transaction is rolled back, no later table is attempted, and the
  database (with it every table's applied index, also of the tables migrated before
  \<open>k\<close>) is unchanged.
\<close>

theorem apply_migration_all_or_nothing:
  assumes pool: "create_pool_ok env" and imp: "import_ok env"
    and res: "apply_migration env cog quiet index dg db = (r, db', l)"
  shows
    "(\<exists>k tail. k \<le> length (all_tables env)
        \<and> l = TrStart # map (MigrateCall \<circ> tablename env) (take k (all_tables env)) @ tail
        \<and> (tail = [TrCommit] \<and> k = length (all_tables env)
             \<or> tail = [] \<or> (\<exists>m. tail = [EchoErr m, TrRollback])))
     \<and> (TrCommit \<in> set l) = (run_all env index dg (\<not> quiet) (all_tables env) db \<noteq> None)
     \<and> (\<forall>d. run_all env index dg (\<not> quiet) (all_tables env) db = Some d \<longrightarrow>
            r = None \<and> db' = d)
     \<and> (TrCommit \<notin> set l \<longrightarrow> db' = db)
     \<and> (\<forall>k dk e d'.
            k < length (all_tables env)
            \<and> run_all env index dg (\<not> quiet) (take k (all_tables env)) db = Some dk
            \<and> migrate env (all_tables env ! k) index dg (\<not> quiet) dk = (Some (RuntimeError e), d')
            \<longrightarrow>
              r = None \<and> db' = db
              \<and> l = TrStart # map (MigrateCall \<circ> tablename env) (take (Suc k) (all_tables env)) @
                    [EchoErr (''Could not migrate '' @ tablename env (all_tables env ! k) @ '': '' @ e),
                     TrRollback])"
proof -
  let ?ts = "all_tables env"
  let ?names = "\<lambda>k. map (MigrateCall \<circ> tablename env) (take k ?ts)"
  have raised: "r = None \<and> db' = db
      \<and> l = TrStart # ?names (Suc k) @
            [EchoErr (''Could not migrate '' @ tablename env (?ts ! k) @ '': '' @ e), TrRollback]"
    if "k < length ?ts" "run_all env index dg (\<not> quiet) (take k ?ts) db = Some dk"
      "migrate env (?ts ! k) index dg (\<not> quiet) dk = (Some (RuntimeError e), d')"
    for k dk e d'
    using apply_migration_first_raise [OF pool imp that, of cog] res by simp
  have no_member: "TrCommit \<notin> set (?names k)" for k
    by auto
  show ?thesis
  proof (cases "run_all env index dg (\<not> quiet) ?ts db")
    case (Some d)
    from apply_migration_all_return [OF pool imp Some, of cog] res
    have r: "r = None" and d: "db' = d" and l: "l = TrStart # ?names (length ?ts) @ [TrCommit]"
      by simp_all
    have shape: "\<exists>k tail. k \<le> length ?ts \<and> l = TrStart # ?names k @ tail
        \<and> (tail = [TrCommit] \<and> k = length ?ts \<or> tail = [] \<or> (\<exists>m. tail = [EchoErr m, TrRollback]))"
      using l by blast
    have commit: "TrCommit \<in> set l"
      using l by simp
    show ?thesis
      using shape commit Some r d raised by auto
  next
    case None
    from run_all_None [OF None] obtain k dk x d' where
      k: "k < length ?ts" and dk: "run_all env index dg (\<not> quiet) (take k ?ts) db = Some dk"
      and x: "migrate env (?ts ! k) index dg (\<not> quiet) dk = (Some x, d')"
      by blast
    note eq = apply_migration_first_raise [OF pool imp k dk x, of cog]
    have d: "db' = db"
      using eq res by (cases x) simp_all
    have l: "l = TrStart # ?names (Suc k) @ [] \<or>
        (\<exists>m. l = TrStart # ?names (Suc k) @ [EchoErr m, TrRollback])"
      using eq res by (cases x) auto
    have k': "Suc k \<le> length ?ts"
      using k by simp
    have shape: "\<exists>k tail. k \<le> length ?ts \<and> l = TrStart # ?names k @ tail
        \<and> (tail = [TrCommit] \<and> k = length ?ts \<or> tail = [] \<or> (\<exists>m. tail = [EchoErr m, TrRollback]))"
      using l k' by blast
    have no_commit: "TrCommit \<notin> set l"
      using l no_member [of "Suc k"] by auto
    show ?thesis
      using shape no_commit None d raised by auto
  qed
qed

theorem apply_migration_all_or_nothing_witness:
  "create_pool_ok demo_env \<and> import_ok demo_env
   \<and> run_all demo_env 1 False True (take 1 (all_tables demo_env)) demo_db
        = Some [(''guild_config'', 1), (''punishment_config'', 0), (''vc_channel_config'', 0)]
   \<and> migrate demo_env (all_tables demo_env ! 1) 1 False True
          [(''guild_config'', 1), (''punishment_config'', 0), (''vc_channel_config'', 0)]
        = (Some (RuntimeError ''no such step''),
           [(''guild_config'', 1), (''punishment_config'', 1), (''vc_channel_config'', 0)])
   \<and> apply_migration demo_env ''configuring'' False 1 False demo_db =
        (None, demo_db,
         [TrStart, MigrateCall ''guild_config'', MigrateCall ''punishment_config'',
          EchoErr ''Could not migrate punishment_config: no such step'', TrRollback])"
proof -
  have pool: "create_pool_ok demo_env" and imp: "import_ok demo_env"
    by (simp_all add: demo_env_def)
  have k: "1 < length (all_tables demo_env)"
    by (simp add: demo_env_def)
  have dk: "run_all demo_env 1 False (\<not> False) (take 1 (all_tables demo_env)) demo_db
      = Some [(''guild_config'', 1), (''punishment_config'', 0), (''vc_channel_config'', 0)]"
    by (simp add: demo_env_def demo_db_def demo_migrate_def)
  have x: "migrate demo_env (all_tables demo_env ! 1) 1 False (\<not> False)
      [(''guild_config'', 1), (''punishment_config'', 0), (''vc_channel_config'', 0)]
      = (Some (RuntimeError ''no such step''),
         [(''guild_config'', 1), (''punishment_config'', 1), (''vc_channel_config'', 0)])"
    by (simp add: demo_env_def demo_migrate_def)
  obtain r db' l where res: "apply_migration demo_env ''configuring'' False 1 False demo_db = (r, db', l)"
    by (cases "apply_migration demo_env ''configuring'' False 1 False demo_db") auto
  from apply_migration_all_or_nothing [OF pool imp res] k dk x
  have "r = None \<and> db' = demo_db
      \<and> l = TrStart # map (MigrateCall \<circ> tablename demo_env) (take (Suc 1) (all_tables demo_env)) @
            [EchoErr (''Could not migrate '' @ tablename demo_env (all_tables demo_env ! 1) @ '': '' @ ''no such step''),
             TrRollback]"
    by blast
  then have "apply_migration demo_env ''configuring'' False 1 False demo_db =
        (None, demo_db,
         [TrStart, MigrateCall ''guild_config'', MigrateCall ''punishment_config'',
          EchoErr ''Could not migrate punishment_config: no such step'', TrRollback])"
    using res by (simp add: demo_env_def)
  with pool imp dk x show ?thesis
    by simp
qed

section \<open>Properties of RoleRange.convert\<close>

lemma try_convert_role_only_bad:
  assumes "\<forall>s x. role_converter s = Inl x \<longrightarrow> (\<exists>m. x = BadArgument m)"
  shows "try_convert_role role_converter s =
           (case role_converter s of Inl x \<Rightarrow> Inr None | Inr r \<Rightarrow> Inr (Some r))"
proof (cases "role_converter s")
  case (Inl x)
  with assms obtain m where "x = BadArgument m" by blast
  with Inl show ?thesis by (simp add: try_convert_role_def)
next
  case (Inr r)
  then show ?thesis by (simp add: try_convert_role_def)
qed

lemma endpoint_positions_ints:
  "py_int first = Some a \<Longrightarrow> py_int second = Some b \<Longrightarrow>
     endpoint_positions py_int role_converter first second = Inr (a, b)"
  by (simp add: endpoint_positions_def)

lemma endpoint_positions_roles:
  assumes "\<forall>s x. role_converter s = Inl x \<longrightarrow> (\<exists>m. x = BadArgument m)"
    and "py_int first = None \<or> py_int second = None"
  shows "endpoint_positions py_int role_converter first second =
           (case role_converter first of
              Inl x \<Rightarrow> Inl (BadArgument (''Invalid first argument '' @ first))
            | Inr r1 \<Rightarrow>
                (case role_converter second of
                   Inl x \<Rightarrow> Inl (BadArgument (''Invalid second argument '' @ second))
                 | Inr r2 \<Rightarrow> Inr (position r1, position r2)))"
  using assms(2)
  by (auto simp: endpoint_positions_def Let_def try_convert_role_only_bad [OF assms(1)]
      split: option.splits sum.splits)

lemma convert_of_positions:
  assumes "partition_dots argument = (first, sep, second)"
    and "endpoint_positions py_int role_converter first second = Inr (p1, p2)"
  shows "if p1 \<ge> bot_highest \<or> p2 \<ge> bot_highest \<or> p1 \<le> p2
         then \<exists>m. convert py_int role_converter guild_roles bot_highest argument = Inl (BadArgument m)
         else convert py_int role_converter guild_roles bot_highest argument
                = Inr (py_slice guild_roles p2 (p1 + 1))"
  using assms by (auto simp: convert_def)

text \<open>
  C10, as amended. In a guild where the role converter raises nothing but
  \<open>BadArgument\<close>, \<open>convert\<close> either raises \<open>BadArgument\<close> or returns the Python
  slice \<open>guild_roles[second_pos : first_pos + 1]\<close>. When both endpoints parse as
  integers, these are the positions. Otherwise both endpoints are resolved as roles, also
  the one that parses as an integer, \<open>BadArgument\<close> is raised when either does not
  resolve, and the positions are those of the two roles. On the positions,
  \<open>BadArgument\<close> is raised exactly when one of them is greater than or equal to the
  position of the bot's top role, or \<open>first_pos \<le> second_pos\<close>.
\<close>

theorem convert_role_range:
  assumes only_bad: "\<forall>s x. role_converter s = Inl x \<longrightarrow> (\<exists>m. x = BadArgument m)"
    and part: "partition_dots argument = (first, sep, second)"
  shows
    "((\<exists>m. convert py_int role_converter guild_roles bot_highest argument = Inl (BadArgument m))
       \<or> (\<exists>first_pos second_pos.
            convert py_int role_converter guild_roles bot_highest argument
              = Inr (py_slice guild_roles second_pos (first_pos + 1))))
     \<and> (\<forall>a b. py_int first = Some a \<and> py_int second = Some b \<longrightarrow>
          (if a \<ge> bot_highest \<or> b \<ge> bot_highest \<or> a \<le> b
           then \<exists>m. convert py_int role_converter guild_roles bot_highest argument
                  = Inl (BadArgument m)
           else convert py_int role_converter guild_roles bot_highest argument
                  = Inr (py_slice guild_roles b (a + 1))))
     \<and> (py_int first = None \<or> py_int second = None \<longrightarrow>
          (isl (role_converter first) \<or> isl (role_converter second) \<longrightarrow>
             (\<exists>m. convert py_int role_converter guild_roles bot_highest argument
                = Inl (BadArgument m)))
          \<and> (\<forall>r1 r2. role_converter first = Inr r1 \<and> role_converter second = Inr r2 \<longrightarrow>
               (if position r1 \<ge> bot_highest \<or> position r2 \<ge> bot_highest
                   \<or> position r1 \<le> position r2
                then \<exists>m. convert py_int role_converter guild_roles bot_highest argument
                       = Inl (BadArgument m)
                else convert py_int role_converter guild_roles bot_highest argument
                       = Inr (py_slice guild_roles (position r2) (position r1 + 1)))))"
proof -
  let ?c = "convert py_int role_converter guild_roles bot_highest argument"
  have ints: "if a \<ge> bot_highest \<or> b \<ge> bot_highest \<or> a \<le> b
       then \<exists>m. ?c = Inl (BadArgument m) else ?c = Inr (py_slice guild_roles b (a + 1))"
    if "py_int first = Some a" "py_int second = Some b" for a b
    using convert_of_positions [OF part endpoint_positions_ints [OF that]] .
  have roles_ok: "if position r1 \<ge> bot_highest \<or> position r2 \<ge> bot_highest
          \<or> position r1 \<le> position r2
       then \<exists>m. ?c = Inl (BadArgument m)
       else ?c = Inr (py_slice guild_roles (position r2) (position r1 + 1))"
    if "py_int first = None \<or> py_int second = None"
      "role_converter first = Inr r1" "role_converter second = Inr r2" for r1 r2
  proof -
    have "endpoint_positions py_int role_converter first second = Inr (position r1, position r2)"
      using endpoint_positions_roles [OF only_bad that(1)] that(2,3) by simp
    from convert_of_positions [OF part this] show ?thesis .
  qed
  have roles_bad: "\<exists>m. ?c = Inl (BadArgument m)"
    if "py_int first = None \<or> py_int second = None"
      "isl (role_converter first) \<or> isl (role_converter second)"
  proof -
    from that(2) have "\<exists>m. endpoint_positions py_int role_converter first second = Inl (BadArgument m)"
      unfolding endpoint_positions_roles [OF only_bad that(1)]
      by (auto split: sum.splits)
    then show ?thesis
      using part by (auto simp: convert_def)
  qed
  have either: "(\<exists>m. ?c = Inl (BadArgument m))
       \<or> (\<exists>first_pos second_pos. ?c = Inr (py_slice guild_roles second_pos (first_pos + 1)))"
  proof (cases "py_int first = None \<or> py_int second = None")
    case True
    show ?thesis
    proof (cases "isl (role_converter first) \<or> isl (role_converter second)")
      case True
      with roles_bad \<open>py_int first = None \<or> py_int second = None\<close> show ?thesis by blast
    next
      case False
      then obtain r1 r2 where "role_converter first = Inr r1" "role_converter second = Inr r2"
        by (cases "role_converter first"; cases "role_converter second") auto
      from roles_ok [OF True this] show ?thesis
        by (auto split: if_splits)
    qed
  next
    case False
    then obtain a b where "py_int first = Some a" "py_int second = Some b"
      by auto
    from ints [OF this] show ?thesis
      by (auto split: if_splits)
  qed
  show ?thesis
    using either ints roles_ok roles_bad by blast
qed


theorem convert_role_range_witness:
  "partition_dots ''Mod..Member'' = (''Mod'', ''..'', ''Member'')
   \<and> demo_int ''Mod'' = None
   \<and> demo_role_converter ''Mod'' = Inr \<lparr>role_id = 103, role_name = ''Mod'', position = 3\<rparr>
   \<and> demo_role_converter ''Member'' = Inr \<lparr>role_id = 101, role_name = ''Member'', position = 1\<rparr>
   \<and> convert demo_int demo_role_converter demo_roles 4 ''Mod..Member'' =
        Inr [\<lparr>role_id = 101, role_name = ''Member'', position = 1\<rparr>,
             \<lparr>role_id = 102, role_name = ''Regular'', position = 2\<rparr>,
             \<lparr>role_id = 103, role_name = ''Mod'', position = 3\<rparr>]"
proof -
  have only_bad: "\<forall>s x. demo_role_converter s = Inl x \<longrightarrow> (\<exists>m. x = BadArgument m)"
    by (auto simp: demo_role_converter_def split: option.splits)
  have part: "partition_dots ''Mod..Member'' = (''Mod'', ''..'', ''Member'')"
    by simp
  have no_int: "demo_int ''Mod'' = None"
    by (simp add: demo_int_def digit_value_def)
  have r1: "demo_role_converter ''Mod'' = Inr \<lparr>role_id = 103, role_name = ''Mod'', position = 3\<rparr>"
    by (simp add: demo_role_converter_def demo_roles_def)
  have r2: "demo_role_converter ''Member'' = Inr \<lparr>role_id = 101, role_name = ''Member'', position = 1\<rparr>"
    by (simp add: demo_role_converter_def demo_roles_def)
  from convert_role_range [OF only_bad part, of demo_int demo_roles 4] no_int r1 r2
  have "convert demo_int demo_role_converter demo_roles 4 ''Mod..Member'' =
      Inr (py_slice demo_roles 1 (3 + 1))"
    by simp
  then have "convert demo_int demo_role_converter demo_roles 4 ''Mod..Member'' =
        Inr [\<lparr>role_id = 101, role_name = ''Member'', position = 1\<rparr>,
             \<lparr>role_id = 102, role_name = ''Regular'', position = 2\<rparr>,
             \<lparr>role_id = 103, role_name = ''Mod'', position = 3\<rparr>]"
    by (simp add: py_slice_def py_slice_bound_def demo_roles_def)
  with part no_int r1 r2 show ?thesis
    by simp
qed

text \<open>
  C10 as stated fails: in \<open>3..Member\<close> the first endpoint is an integer and the
  second a role, 3 and the role's position 1 are below the bot's top role and in
  descending order, and \<open>convert\<close> raises \<open>BadArgument\<close> because no role is named
  \<open>3\<close>.
\<close>

theorem convert_mixed_endpoints_counterexample:
  "convert demo_int demo_role_converter demo_roles 4 ''3..Member''
     = Inl (BadArgument ''Invalid first argument 3'')
   \<and> \<not> claimed_bad_argument demo_int demo_role_converter 4 ''3..Member''"
proof -
  have part: "partition_dots ''3..Member'' = (''3'', ''..'', ''Member'')"
    by simp
  have i1: "demo_int ''3'' = Some 3" and i2: "demo_int ''Member'' = None"
    by (simp_all add: demo_int_def digit_value_def)
  have r1: "demo_role_converter ''3'' = Inl (BadArgument ''Role not found: 3'')"
    by (simp add: demo_role_converter_def demo_roles_def)
  have r2: "demo_role_converter ''Member'' = Inr \<lparr>role_id = 101, role_name = ''Member'', position = 1\<rparr>"
    by (simp add: demo_role_converter_def demo_roles_def)
  have "convert demo_int demo_role_converter demo_roles 4 ''3..Member''
     = Inl (BadArgument ''Invalid first argument 3'')"
    by (simp add: convert_def part endpoint_positions_def try_convert_role_def i1 i2 r1)
  moreover have "\<not> claimed_bad_argument demo_int demo_role_converter 4 ''3..Member''"
    by (simp add: claimed_bad_argument_def part claimed_position_def i1 i2 r2)
  ultimately show ?thesis by simp
qed

section \<open>Properties of the role pool commands\<close>

text \<open>
  What the filter of \<open>_bulk_add_roles\<close> does give: the rows already stored stay as
  they are, every inserted row is of the invoking guild with a role id that was not
  stored for it, and roles with pairwise distinct ids (a role range is such a list) add
  no duplicate to a table that has none.
\<close>

lemma bulk_add_roles_keeps_table:
  "take (length table) (bulk_add_roles table guild_id roles category) = table"
  by (simp add: bulk_add_roles_def Let_def)

lemma bulk_add_roles_inserts_new_ids:
  assumes "row \<in> set (drop (length table) (bulk_add_roles table guild_id roles category))"
  shows "fst row = guild_id \<and> row_key row \<notin> row_key ` set table"
  using assms by (force simp: bulk_add_roles_def Let_def row_key_def)

lemma bulk_add_roles_distinct:
  assumes "distinct (map role_id roles)" and "distinct (map row_key table)"
  shows "distinct (map row_key (bulk_add_roles table guild_id roles category))"
proof -
  let ?new = "filter (\<lambda>r. role_id r \<notin> set (map (\<lambda>row. fst (snd row))
                 (filter (\<lambda>row. fst row = guild_id) table))) roles"
  have keys: "map row_key (map (\<lambda>r. (guild_id, role_id r, category)) ?new)
      = map (\<lambda>r. (guild_id, role_id r)) ?new"
    by (simp add: row_key_def)
  have "distinct (map role_id ?new)"
    using assms(1) by (rule distinct_map_filter)
  then have d_new: "distinct (map (\<lambda>r. (guild_id, role_id r)) ?new)"
    by (simp add: distinct_map inj_on_def)
  have disj: "set (map row_key table) \<inter> set (map (\<lambda>r. (guild_id, role_id r)) ?new) = {}"
    by (force simp: row_key_def)
  show ?thesis
    using assms(2) d_new disj
    by (simp add: bulk_add_roles_def Let_def row_key_def comp_def)
qed

text \<open>
  C9, at an input where the code creates a duplicate: \<open>roles enable\<close> with the same
  role given twice, on an empty table. Neither copy is among the stored ids, so both rows
  are copied into the table.
\<close>

theorem roles_enable_repeated_role:
  "roles_enable (\<lambda>s. s) [] 1 (Some ''colours'')
       [\<lparr>role_id = 200, role_name = ''Red'', position = 2\<rparr>,
        \<lparr>role_id = 200, role_name = ''Red'', position = 2\<rparr>]
     = ([(1, 200, Some ''colours''), (1, 200, Some ''colours'')], ''Updated rolepool.'')
   \<and> \<not> distinct (map row_key (fst (roles_enable (\<lambda>s. s) [] 1 (Some ''colours'')
       [\<lparr>role_id = 200, role_name = ''Red'', position = 2\<rparr>,
        \<lparr>role_id = 200, role_name = ''Red'', position = 2\<rparr>])))"
  by (simp add: roles_enable_def bulk_add_roles_def row_key_def Let_def)

section \<open>Properties of work\<close>

text \<open>
  What \<open>work\<close> prints, for any \<open>write_migration\<close>: when it returns, the one line
  that says whether a step was written, and \<open>work\<close> returns; when it raises a
  \<open>RuntimeError\<close>, first the line \<open>Could not migrate\<close> on stderr, and \<open>work\<close> does
  not return.
\<close>

lemma work_returned:
  assumes "wm t st = (Inr actually_migrated, st1)"
  shows "work wm name_of confirm invoke_init invoked t st =
           (Returned, st1, [Echo (migrated_message (name_of t) actually_migrated)])"
  by (subst work.simps) (simp add: assms)

lemma work_runtime_error:
  assumes "wm t st = (Inl (RuntimeError e), st1)"
  shows "\<exists>how st' l. work wm name_of confirm invoke_init invoked t st =
           (how, st', EchoErr (could_not_migrate (name_of t) e) # l) \<and> how \<noteq> Returned"
proof (cases "\<not> invoked \<and> confirm")
  case False
  then show ?thesis
    by (subst work.simps) (auto simp: assms)
next
  case True
  obtain printed st2 where ini: "invoke_init st1 = (printed, st2)"
    by (cases "invoke_init st1")
  obtain how st3 l where
    retry: "work wm name_of confirm invoke_init True t st2 = (how, st3, l)"
    by (cases "work wm name_of confirm invoke_init True t st2") auto
  have "work wm name_of confirm invoke_init invoked t st =
      ((case how of Returned \<Rightarrow> SystemExit (- 1) | _ \<Rightarrow> how), st3,
       [EchoErr (could_not_migrate (name_of t) e),
        Confirm ''do you want to create the table?''] @ printed @ l)"
    using True retry by (subst work.simps) (simp add: assms ini)
  moreover have "(case how of Returned \<Rightarrow> SystemExit (- 1) | _ \<Rightarrow> how) \<noteq> Returned"
    by (cases how) simp_all
  ultimately show ?thesis by simp
qed

section \<open>Properties of table declarations\<close>

lemma filter_single_split:
  assumes "filter P xs = [y]"
  shows "\<exists>us vs. xs = us @ y # vs \<and> P y \<and> (\<forall>x \<in> set us \<union> set vs. \<not> P x)"
proof -
  from assms obtain us vs where
    xs: "xs = us @ y # vs" and us: "\<forall>u \<in> set us. \<not> P u" and y: "P y" and vs: "[] = filter P vs"
    unfolding filter_eq_Cons_iff by blast
  from vs have "\<forall>x \<in> set vs. \<not> P x"
    by (metis filter_empty_conv)
  with xs us y show ?thesis by blast
qed

lemma filter_two_positions:
  assumes "i < j" "j < length xs" "P (xs ! i)" "P (xs ! j)"
  shows "\<exists>a b cs. filter P xs = a # b # cs"
proof -
  have xs: "xs = take j xs @ xs ! j # drop (Suc j) xs"
    using assms(2) by (simp add: id_take_nth_drop)
  have "xs ! i \<in> set (take j xs)"
    using assms(1,2) by (metis in_set_conv_nth length_take min.absorb2 less_imp_le nth_take)
  with assms(3) have "filter P (take j xs) \<noteq> []"
    by (auto simp: filter_empty_conv)
  then obtain a as where a: "filter P (take j xs) = a # as"
    by (cases "filter P (take j xs)") auto
  have "filter P xs = filter P (take j xs) @ xs ! j # filter P (drop (Suc j) xs)"
    using assms(4) by (subst xs) simp
  with a show ?thesis
    by (cases as) auto
qed

lemma import_tables_rejected:
  "d = Inl e \<Longrightarrow> import_tables (map Inr accepted @ d # later) = Inl e"
  by (induction accepted) simp_all

lemma GuildConfig_declared:
  "GuildConfig column_nullable id_nullable =
     Inr \<lparr>table_name = ''guild_config'',
          columns =
            [(''id'', Column (Integer True) True None column_nullable),
             (''modlog_channel_id'', DiscordIDColumn id_nullable),
             (''mod_channel_id'', DiscordIDColumn id_nullable),
             (''default_channel_id'', DiscordIDColumn id_nullable),
             (''greeting'', Column String False None column_nullable),
             (''is_configured'', Column Boolean False (Some (DefaultBool False)) column_nullable),
             (''tracker_channel_id'', DiscordIDColumn True),
             (''poll_channel_id'', DiscordIDColumn id_nullable)]\<rparr>"
  by (simp add: GuildConfig_def declare_table_def primary_keys_def Column_def DiscordIDColumn_def)

lemma PunishmentConfig_declared:
  "PunishmentConfig column_nullable id_nullable =
     Inr \<lparr>table_name = ''punishment_config'',
          columns =
            [(''id'', Column (Integer True) True None column_nullable),
             (''jailed_role_id'', DiscordIDColumn id_nullable),
             (''shitpost_role_id'', DiscordIDColumn id_nullable),
             (''jailed_channel_id'', DiscordIDColumn id_nullable),
             (''shitpost_channel_id'', DiscordIDColumn id_nullable)]\<rparr>"
  by (simp add: PunishmentConfig_def declare_table_def primary_keys_def Column_def
      DiscordIDColumn_def)

lemma VCChannelConfig_declared:
  "VCChannelConfig id_nullable =
     Inr \<lparr>table_name = ''vc_channel_config'',
          columns =
            [(''id'', PrimaryKeyColumn),
             (''guild_id'', DiscordIDColumn id_nullable),
             (''vc_channel_id'', DiscordIDColumn id_nullable),
             (''channel_id'', DiscordIDColumn id_nullable)]\<rparr>"
  by (simp add: VCChannelConfig_def declare_table_def primary_keys_def PrimaryKeyColumn_def
      DiscordIDColumn_def)

lemma apply_migration_import_fails:
  assumes "import_tables declarations = Inl e"
  shows "apply_migration (cog_env True mig declarations) cog quiet index dg db =
           (None, db, [EchoErr (''Could not load '' @ cog_module cog @ ''.'')])"
  by (simp add: apply_migration_def cog_env_def assms)

lemma apply_migration_pool_fails:
  "apply_migration (cog_env False mig declarations) cog quiet index dg db =
     (None, db, [EchoErr ''Could not create PostgreSQL connection pool.''])"
  by (simp add: apply_migration_def cog_env_def)

text \<open>
  C7, as amended. A table descriptor that \<open>declare_table\<close> gives has the declared name
  and columns, and exactly one of its columns is a primary key: the columns before and
  after it are none. A declaration without a primary key column, and one with two of
  them, is rejected. A rejected declaration makes the import of its cog fail, whatever
  the module declares before and after it, and \<open>apply_migration\<close>, once the pool is
  created, then prints \<open>Could not load\<close> and ends: no transaction is started, no
  \<open>migrate\<close> is called and the database is as it was. The three tables of
  configuring.py are declared successfully, whatever the constructors take for a flag
  left out; each has the declared columns, its first column \<open>id\<close> is a primary key and
  no other column is; so the import of the cog succeeds and yields the three tables.
\<close>

theorem declare_table_one_primary_key:
  "(\<forall>t. declare_table name cols = Inr t \<longrightarrow>
        table_name t = name \<and> columns t = cols
        \<and> (\<exists>before pk after. cols = before @ pk # after \<and> primary_key (snd pk)
              \<and> (\<forall>c \<in> set before \<union> set after. \<not> primary_key (snd c))))
   \<and> ((\<forall>c \<in> set cols. \<not> primary_key (snd c)) \<longrightarrow> declare_table name cols = Inl NoPrimaryKey)
   \<and> ((\<exists>i j. i < j \<and> j < length cols \<and> primary_key (snd (cols ! i)) \<and> primary_key (snd (cols ! j)))
        \<longrightarrow> declare_table name cols = Inl SeveralPrimaryKeys)
   \<and> (\<forall>e. declare_table name cols = Inl e \<longrightarrow>
        import_tables (map Inr accepted @ declare_table name cols # later) = Inl e
        \<and> apply_migration (cog_env True mig (map Inr accepted @ declare_table name cols # later))
              cog quiet index dg db
            = (None, db, [EchoErr (''Could not load '' @ cog_module cog @ ''.'')]))
   \<and> (\<exists>t pk after.
         GuildConfig column_nullable id_nullable = Inr t \<and> table_name t = ''guild_config''
         \<and> map fst (columns t) =
             [''id'', ''modlog_channel_id'', ''mod_channel_id'', ''default_channel_id'',
              ''greeting'', ''is_configured'', ''tracker_channel_id'', ''poll_channel_id'']
         \<and> columns t = pk # after \<and> primary_key (snd pk)
         \<and> (\<forall>c \<in> set after. \<not> primary_key (snd c)))
   \<and> (\<exists>t pk after.
         PunishmentConfig column_nullable id_nullable = Inr t
         \<and> table_name t = ''punishment_config''
         \<and> map fst (columns t) =
             [''id'', ''jailed_role_id'', ''shitpost_role_id'', ''jailed_channel_id'',
              ''shitpost_channel_id'']
         \<and> columns t = pk # after \<and> primary_key (snd pk)
         \<and> (\<forall>c \<in> set after. \<not> primary_key (snd c)))
   \<and> (\<exists>t pk after.
         VCChannelConfig id_nullable = Inr t \<and> table_name t = ''vc_channel_config''
         \<and> map fst (columns t) = [''id'', ''guild_id'', ''vc_channel_id'', ''channel_id'']
         \<and> columns t = pk # after \<and> primary_key (snd pk)
         \<and> (\<forall>c \<in> set after. \<not> primary_key (snd c)))
   \<and> (\<exists>ts. import_tables (configuring_cog column_nullable id_nullable) = Inr ts
         \<and> map table_name ts = [''guild_config'', ''punishment_config'', ''vc_channel_config''])"
proof (intro conjI allI impI)
  fix t
  assume ok: "declare_table name cols = Inr t"
  then obtain pk where pk: "primary_keys cols = [pk]" and t: "t = \<lparr>table_name = name, columns = cols\<rparr>"
    by (auto simp: declare_table_def split: list.splits)
  from t show "table_name t = name" "columns t = cols"
    by simp_all
  from filter_single_split [OF pk [unfolded primary_keys_def]]
  show "\<exists>before pk after. cols = before @ pk # after \<and> primary_key (snd pk)
      \<and> (\<forall>c \<in> set before \<union> set after. \<not> primary_key (snd c))"
    by blast
next
  assume "\<forall>c \<in> set cols. \<not> primary_key (snd c)"
  then have "primary_keys cols = []"
    by (simp add: primary_keys_def)
  then show "declare_table name cols = Inl NoPrimaryKey"
    by (simp add: declare_table_def)
next
  assume "\<exists>i j. i < j \<and> j < length cols \<and> primary_key (snd (cols ! i)) \<and> primary_key (snd (cols ! j))"
  then obtain i j where "i < j" "j < length cols"
    "primary_key (snd (cols ! i))" "primary_key (snd (cols ! j))"
    by blast
  from filter_two_positions [of i j cols "\<lambda>nc. primary_key (snd nc)", OF this]
  obtain a b cs where "primary_keys cols = a # b # cs"
    by (auto simp: primary_keys_def)
  then show "declare_table name cols = Inl SeveralPrimaryKeys"
    by (simp add: declare_table_def)
next
  fix e
  assume bad: "declare_table name cols = Inl e"
  then show imp: "import_tables (map Inr accepted @ declare_table name cols # later) = Inl e"
    by (rule import_tables_rejected)
  show "apply_migration (cog_env True mig (map Inr accepted @ declare_table name cols # later))
              cog quiet index dg db
            = (None, db, [EchoErr (''Could not load '' @ cog_module cog @ ''.'')])"
    by (rule apply_migration_import_fails [OF imp])
next
  show "\<exists>t pk after.
         GuildConfig column_nullable id_nullable = Inr t \<and> table_name t = ''guild_config''
         \<and> map fst (columns t) =
             [''id'', ''modlog_channel_id'', ''mod_channel_id'', ''default_channel_id'',
              ''greeting'', ''is_configured'', ''tracker_channel_id'', ''poll_channel_id'']
         \<and> columns t = pk # after \<and> primary_key (snd pk)
         \<and> (\<forall>c \<in> set after. \<not> primary_key (snd c))"
    unfolding GuildConfig_declared by (simp add: Column_def DiscordIDColumn_def)
  show "\<exists>t pk after.
         PunishmentConfig column_nullable id_nullable = Inr t
         \<and> table_name t = ''punishment_config''
         \<and> map fst (columns t) =
             [''id'', ''jailed_role_id'', ''shitpost_role_id'', ''jailed_channel_id'',
              ''shitpost_channel_id'']
         \<and> columns t = pk # after \<and> primary_key (snd pk)
         \<and> (\<forall>c \<in> set after. \<not> primary_key (snd c))"
    unfolding PunishmentConfig_declared by (simp add: Column_def DiscordIDColumn_def)
  show "\<exists>t pk after.
         VCChannelConfig id_nullable = Inr t \<and> table_name t = ''vc_channel_config''
         \<and> map fst (columns t) = [''id'', ''guild_id'', ''vc_channel_id'', ''channel_id'']
         \<and> columns t = pk # after \<and> primary_key (snd pk)
         \<and> (\<forall>c \<in> set after. \<not> primary_key (snd c))"
    unfolding VCChannelConfig_declared by (simp add: PrimaryKeyColumn_def DiscordIDColumn_def)
  show "\<exists>ts. import_tables (configuring_cog column_nullable id_nullable) = Inr ts
         \<and> map table_name ts = [''guild_config'', ''punishment_config'', ''vc_channel_config'']"
    by (simp add: configuring_cog_def GuildConfig_declared PunishmentConfig_declared
        VCChannelConfig_declared)
qed

theorem declare_table_one_primary_key_witness:
  "(\<exists>t before pk after.
       GuildConfig False False = Inr t \<and> table_name t = ''guild_config''
       \<and> columns t = before @ pk # after \<and> primary_key (snd pk)
       \<and> (\<forall>c \<in> set before \<union> set after. \<not> primary_key (snd c)))
   \<and> (\<exists>t before pk after.
       PunishmentConfig False False = Inr t \<and> table_name t = ''punishment_config''
       \<and> columns t = before @ pk # after \<and> primary_key (snd pk)
       \<and> (\<forall>c \<in> set before \<union> set after. \<not> primary_key (snd c)))
   \<and> (\<exists>t before pk after.
       VCChannelConfig False = Inr t \<and> table_name t = ''vc_channel_config''
       \<and> columns t = before @ pk # after \<and> primary_key (snd pk)
       \<and> (\<forall>c \<in> set before \<union> set after. \<not> primary_key (snd c)))
   \<and> declare_table ''unkeyed'' [(''guild_id'', DiscordIDColumn False)] = Inl NoPrimaryKey
   \<and> declare_table ''twice'' [(''id'', PrimaryKeyColumn), (''other'', PrimaryKeyColumn)]
        = Inl SeveralPrimaryKeys
   \<and> apply_migration (cog_env True idle_migrate unkeyed_cog) ''unkeyed'' False (- 1) False demo_db
        = (None, demo_db, [EchoErr ''Could not load cogs.unkeyed.''])
   \<and> apply_migration (cog_env True idle_migrate twice_keyed_cog) ''cogs.twice'' False (- 1) True
          demo_db
        = (None, demo_db, [EchoErr ''Could not load cogs.twice.''])"
proof -
  note one = declare_table_one_primary_key [THEN conjunct1, rule_format]
  note g = GuildConfig_declared [of False False, unfolded GuildConfig_def]
  note p = PunishmentConfig_declared [of False False, unfolded PunishmentConfig_def]
  note v = VCChannelConfig_declared [of False, unfolded VCChannelConfig_def]
  have t1: "\<exists>t before pk after.
       GuildConfig False False = Inr t \<and> table_name t = ''guild_config''
       \<and> columns t = before @ pk # after \<and> primary_key (snd pk)
       \<and> (\<forall>c \<in> set before \<union> set after. \<not> primary_key (snd c))"
    using one [OF g] g unfolding GuildConfig_def by (metis table.select_convs(1,2))
  have t2: "\<exists>t before pk after.
       PunishmentConfig False False = Inr t \<and> table_name t = ''punishment_config''
       \<and> columns t = before @ pk # after \<and> primary_key (snd pk)
       \<and> (\<forall>c \<in> set before \<union> set after. \<not> primary_key (snd c))"
    using one [OF p] p unfolding PunishmentConfig_def by (metis table.select_convs(1,2))
  have t3: "\<exists>t before pk after.
       VCChannelConfig False = Inr t \<and> table_name t = ''vc_channel_config''
       \<and> columns t = before @ pk # after \<and> primary_key (snd pk)
       \<and> (\<forall>c \<in> set before \<union> set after. \<not> primary_key (snd c))"
    using one [OF v] v unfolding VCChannelConfig_def by (metis table.select_convs(1,2))
  have none: "\<forall>c \<in> set [(''guild_id'', DiscordIDColumn False)]. \<not> primary_key (snd c)"
    by (simp add: DiscordIDColumn_def)
  have two: "\<exists>i j. i < j \<and> j < length [(''id'', PrimaryKeyColumn), (''other'', PrimaryKeyColumn)]
      \<and> primary_key (snd ([(''id'', PrimaryKeyColumn), (''other'', PrimaryKeyColumn)] ! i))
      \<and> primary_key (snd ([(''id'', PrimaryKeyColumn), (''other'', PrimaryKeyColumn)] ! j))"
    by (rule exI [of _ 0], rule exI [of _ 1]) (simp add: PrimaryKeyColumn_def)
  have a: "declare_table ''unkeyed'' [(''guild_id'', DiscordIDColumn False)] = Inl NoPrimaryKey"
    using declare_table_one_primary_key
      [of "''unkeyed''" "[(''guild_id'', DiscordIDColumn False)]", THEN conjunct2, THEN conjunct1]
      none
    by blast
  have b: "declare_table ''twice'' [(''id'', PrimaryKeyColumn), (''other'', PrimaryKeyColumn)]
      = Inl SeveralPrimaryKeys"
    using declare_table_one_primary_key
      [of "''twice''" "[(''id'', PrimaryKeyColumn), (''other'', PrimaryKeyColumn)]",
        THEN conjunct2, THEN conjunct2, THEN conjunct1] two
    by blast
  have c: "apply_migration (cog_env True idle_migrate unkeyed_cog) ''unkeyed'' False (- 1) False demo_db
        = (None, demo_db, [EchoErr ''Could not load cogs.unkeyed.''])"
    using declare_table_one_primary_key
      [where name = "''unkeyed''" and cols = "[(''guild_id'', DiscordIDColumn False)]"
        and accepted = "[]" and later = "[]" and mig = idle_migrate and cog = "''unkeyed''"
        and quiet = False and index = "- 1" and dg = False and db = demo_db,
        THEN conjunct2, THEN conjunct2, THEN conjunct2, THEN conjunct1] a
    by (simp add: unkeyed_cog_def cog_module_def)
  have d: "apply_migration (cog_env True idle_migrate twice_keyed_cog) ''cogs.twice'' False (- 1) True
          demo_db
        = (None, demo_db, [EchoErr ''Could not load cogs.twice.''])"
    using declare_table_one_primary_key
      [where name = "''twice''"
        and cols = "[(''id'', PrimaryKeyColumn), (''other'', PrimaryKeyColumn)]"
        and accepted = "[]" and later = "[]" and mig = idle_migrate and cog = "''cogs.twice''"
        and quiet = False and index = "- 1" and dg = True and db = demo_db,
        THEN conjunct2, THEN conjunct2, THEN conjunct2, THEN conjunct1] b
    by (simp add: twice_keyed_cog_def cog_module_def)
  from t1 t2 t3 a b c d show ?thesis
    by (intro conjI)
qed

text \<open>
  C7 as stated fails where it says that a declaration is rejected before any database
  interaction: \<open>apply_migration\<close> creates the connection pool before it imports the
  cog. With a cog whose only table has no primary key column, a pool that cannot be
  created ends the command with the pool's message and the declaration is never looked
  at; the declaration is rejected only when the pool has been created.
\<close>

theorem declaration_after_pool_counterexample:
  "import_tables unkeyed_cog = Inl NoPrimaryKey
   \<and> apply_migration (cog_env False idle_migrate unkeyed_cog) ''unkeyed'' False (- 1) False demo_db
        = (None, demo_db, [EchoErr ''Could not create PostgreSQL connection pool.''])
   \<and> apply_migration (cog_env True idle_migrate unkeyed_cog) ''unkeyed'' False (- 1) False demo_db
        = (None, demo_db, [EchoErr ''Could not load cogs.unkeyed.''])"
  by (simp add: unkeyed_cog_def declare_table_def primary_keys_def DiscordIDColumn_def
      apply_migration_def cog_env_def cog_module_def)

section \<open>Properties of the Schema Differ\<close>

lemma image_named:
  "(\<lambda>nc. f (fst nc) (snd nc)) ` {nc \<in> S. P (fst nc)} = {f n c | n c. (n, c) \<in> S \<and> P n}"
  by force

lemma set_concat_matched:
  assumes "distinct (map fst snap)"
  shows "set (concat (map (\<lambda>nc. case map_of snap (fst nc) of
                                   None \<Rightarrow> []
                                 | Some old \<Rightarrow> if d old (snd nc) then [g (fst nc) old (snd nc)] else [])
                        now))
         = {g n old new | n old new. (n, new) \<in> set now \<and> (n, old) \<in> set snap \<and> d old new}"
  using assms
  apply (auto split: option.splits if_splits dest: map_of_SomeD)
   apply blast
  apply force
  done

lemma set_dropped:
  "set (dropped now snap) = {DropColumn n c | n c. (n, c) \<in> set snap \<and> n \<notin> fst ` set now}"
  using image_named [of DropColumn "set snap" "\<lambda>n. n \<notin> fst ` set now"]
  by (simp add: dropped_def)

lemma set_added:
  "set (added now snap) = {AddColumn n c | n c. (n, c) \<in> set now \<and> n \<notin> fst ` set snap}"
  using image_named [of AddColumn "set now" "\<lambda>n. n \<notin> fst ` set snap"]
  by (simp add: added_def)

lemma set_altered:
  assumes "distinct (map fst snap)"
  shows "set (altered now snap) =
           {AlterColumn n old new | n old new.
              (n, new) \<in> set now \<and> (n, old) \<in> set snap \<and> differs old new}"
  unfolding altered_def by (rule set_concat_matched [OF assms])

lemma altered_as_map:
  "altered now snap =
     map (\<lambda>nc. AlterColumn (fst nc) (the (map_of snap (fst nc))) (snd nc))
       (filter (\<lambda>nc. case map_of snap (fst nc) of None \<Rightarrow> False | Some old \<Rightarrow> differs old (snd nc))
          now)"
  by (induction now) (auto simp: altered_def split: option.splits)

lemma distinct_pairs: "distinct (map fst xs) \<Longrightarrow> distinct xs"
  by (simp add: distinct_map)

lemma distinct_dropped: "distinct (map fst snap) \<Longrightarrow> distinct (dropped now snap)"
  unfolding dropped_def
  by (auto simp: distinct_map inj_on_def prod_eq_iff dest: distinct_pairs)

lemma distinct_added: "distinct (map fst now) \<Longrightarrow> distinct (added now snap)"
  unfolding added_def
  by (auto simp: distinct_map inj_on_def prod_eq_iff dest: distinct_pairs)

lemma distinct_altered: "distinct (map fst now) \<Longrightarrow> distinct (altered now snap)"
  unfolding altered_as_map
  by (auto simp: distinct_map inj_on_def prod_eq_iff dest: distinct_pairs)

lemma rank_dropped: "map op_rank (dropped now snap) = replicate (length (dropped now snap)) 0"
  by (simp add: dropped_def map_replicate_const [symmetric] comp_def)

lemma rank_added: "map op_rank (added now snap) = replicate (length (added now snap)) 1"
  by (simp add: added_def map_replicate_const [symmetric] comp_def)

lemma rank_altered: "map op_rank (altered now snap) = replicate (length (altered now snap)) 2"
  by (simp add: altered_as_map map_replicate_const [symmetric] comp_def)

lemma empty_groups:
  assumes "(D = {}) = (Y \<subseteq> X)" "(A = {}) = (X \<subseteq> Y)" "(L = {}) = Q"
  shows "(D = {} \<and> A = {} \<and> L = {}) = (X = Y \<and> Q)"
  using assms by blast

text \<open>
  C6. For a descriptor and a snapshot with pairwise distinct column names, the diff
  holds exactly: a drop for each column of the snapshot whose name is absent now, an add
  for each column present now whose name is absent from the snapshot, and an alter for
  each name present in both whose type, nullability or default differs. No operation is
  emitted twice, all drops come before all adds before all alters, and the diff is empty
  if and only if descriptor and snapshot have the same names and agree, name by name, on
  type, nullability and default.
\<close>

theorem diff_emits_drops_adds_alters:
  assumes now: "distinct (map fst (columns t))" and snap: "distinct (map fst snap)"
  shows
    "set (diff t snap) =
        {DropColumn n c | n c. (n, c) \<in> set snap \<and> n \<notin> fst ` set (columns t)}
        \<union> {AddColumn n c | n c. (n, c) \<in> set (columns t) \<and> n \<notin> fst ` set snap}
        \<union> {AlterColumn n old new | n old new.
             (n, new) \<in> set (columns t) \<and> (n, old) \<in> set snap
             \<and> (col_type old \<noteq> col_type new \<or> nullable old \<noteq> nullable new
                 \<or> default_of old \<noteq> default_of new)}
     \<and> distinct (diff t snap)
     \<and> sorted (map op_rank (diff t snap))
     \<and> (diff t snap = []) =
         (fst ` set (columns t) = fst ` set snap
          \<and> (\<forall>n old new. (n, old) \<in> set snap \<and> (n, new) \<in> set (columns t) \<longrightarrow>
                col_type old = col_type new \<and> nullable old = nullable new
                \<and> default_of old = default_of new))"
proof -
  let ?D = "{DropColumn n c | n c. (n, c) \<in> set snap \<and> n \<notin> fst ` set (columns t)}"
  let ?A = "{AddColumn n c | n c. (n, c) \<in> set (columns t) \<and> n \<notin> fst ` set snap}"
  let ?L = "{AlterColumn n old new | n old new.
             (n, new) \<in> set (columns t) \<and> (n, old) \<in> set snap
             \<and> (col_type old \<noteq> col_type new \<or> nullable old \<noteq> nullable new
                 \<or> default_of old \<noteq> default_of new)}"
  have sets: "set (diff t snap) = ?D \<union> ?A \<union> ?L"
    by (simp add: diff_def set_dropped set_added set_altered [OF snap] differs_def Un_assoc)
  have "set (dropped (columns t) snap) \<inter> set (added (columns t) snap) = {}"
    "set (dropped (columns t) snap) \<inter> set (altered (columns t) snap) = {}"
    "set (added (columns t) snap) \<inter> set (altered (columns t) snap) = {}"
    by (auto simp: set_dropped set_added set_altered [OF snap])
  then have dist: "distinct (diff t snap)"
    using distinct_dropped [OF snap] distinct_added [OF now] distinct_altered [OF now]
    by (simp add: diff_def Int_Un_distrib)
  have order: "sorted (map op_rank (diff t snap))"
    by (simp add: diff_def rank_dropped rank_added rank_altered sorted_append)
  have d: "(?D = {}) = (fst ` set snap \<subseteq> fst ` set (columns t))"
    by force
  have a: "(?A = {}) = (fst ` set (columns t) \<subseteq> fst ` set snap)"
    by force
  have l: "(?L = {}) = (\<forall>n old new. (n, old) \<in> set snap \<and> (n, new) \<in> set (columns t) \<longrightarrow>
                col_type old = col_type new \<and> nullable old = nullable new
                \<and> default_of old = default_of new)"
    by blast
  have "(diff t snap = []) = (set (diff t snap) = {})"
    by simp
  also have "\<dots> = (?D = {} \<and> ?A = {} \<and> ?L = {})"
    by (simp only: sets Un_empty conj_assoc)
  also have "\<dots> = (fst ` set (columns t) = fst ` set snap
          \<and> (\<forall>n old new. (n, old) \<in> set snap \<and> (n, new) \<in> set (columns t) \<longrightarrow>
                col_type old = col_type new \<and> nullable old = nullable new
                \<and> default_of old = default_of new))"
    by (rule empty_groups [OF d a l])
  finally have empty: "(diff t snap = []) =
         (fst ` set (columns t) = fst ` set snap
          \<and> (\<forall>n old new. (n, old) \<in> set snap \<and> (n, new) \<in> set (columns t) \<longrightarrow>
                col_type old = col_type new \<and> nullable old = nullable new
                \<and> default_of old = default_of new))" .
  show ?thesis
    by (rule conjI [OF sets conjI [OF dist conjI [OF order empty]]])
qed

theorem diff_emits_drops_adds_alters_witness:
  "distinct (map fst (columns widgets_enabled)) \<and> distinct (map fst widgets_legacy_columns)
   \<and> diff widgets_enabled widgets_legacy_columns =
        [DropColumn ''legacy'' (Column (Integer False) False (Some (DefaultInt 0)) True),
         AddColumn ''enabled'' (Column Boolean False (Some (DefaultBool False)) True),
         AlterColumn ''name'' (Column String False None False) (Column String False None True)]
   \<and> map op_rank (diff widgets_enabled widgets_legacy_columns) = [0, 1, 2]
   \<and> sorted (map op_rank (diff widgets_enabled widgets_legacy_columns))
   \<and> distinct (diff widgets_enabled widgets_legacy_columns)"
proof -
  have now: "distinct (map fst (columns widgets_enabled))"
    by (simp add: widgets_enabled_def widgets_columns_def)
  have snap: "distinct (map fst widgets_legacy_columns)"
    by (simp add: widgets_legacy_columns_def)
  have ops: "diff widgets_enabled widgets_legacy_columns =
        [DropColumn ''legacy'' (Column (Integer False) False (Some (DefaultInt 0)) True),
         AddColumn ''enabled'' (Column Boolean False (Some (DefaultBool False)) True),
         AlterColumn ''name'' (Column String False None False) (Column String False None True)]"
    by (simp add: diff_def dropped_def added_def altered_def differs_def widgets_enabled_def
        widgets_columns_def widgets_legacy_columns_def Column_def)
  have ranks: "map op_rank (diff widgets_enabled widgets_legacy_columns) = [0, 1, 2]"
    by (simp add: ops)
  from diff_emits_drops_adds_alters [OF now snap]
  have "distinct (diff widgets_enabled widgets_legacy_columns)"
    and "sorted (map op_rank (diff widgets_enabled widgets_legacy_columns))"
    by blast+
  with now snap ops ranks show ?thesis
    by blast
qed

section \<open>Properties of the Migration Writer\<close>

lemma write_migration_no_baseline:
  "h (table_name t) = [] \<Longrightarrow> write_migration t h = (Inl (RuntimeError ''no baseline''), h)"
  by (simp add: write_migration_def)

lemma write_migration_no_change:
  "h (table_name t) \<noteq> [] \<Longrightarrow> diff t (snapshot (last (h (table_name t)))) = [] \<Longrightarrow>
     write_migration t h = (Inr False, h)"
  by (cases "h (table_name t)") (simp_all add: write_migration_def Let_def)

lemma write_migration_migrated:
  "h (table_name t) \<noteq> [] \<Longrightarrow> diff t (snapshot (last (h (table_name t)))) \<noteq> [] \<Longrightarrow>
     write_migration t h =
       (Inr True,
        h(table_name t := h (table_name t) @
            [\<lparr>step_index = Suc (step_index (last (h (table_name t)))),
              forward = diff t (snapshot (last (h (table_name t)))),
              reverse = rev (map inverse_op (diff t (snapshot (last (h (table_name t)))))),
              snapshot = columns t\<rparr>]))"
  by (cases "h (table_name t)") (simp_all add: write_migration_def Let_def)

text \<open>
  C4. \<open>write_migration\<close> has three outcomes. Without a step for the table it fails
  with the no-baseline error and the history is unchanged; \<open>work\<close> prints
  \<open>Could not migrate\<close> with the error first and does not return. With a step and an
  empty diff against the latest snapshot it returns \<open>False\<close> and the history is
  unchanged; \<open>work\<close> prints \<open>Found no changes\<close>. Otherwise it returns \<open>True\<close>
  and the table's history has exactly one step more, with the next index, the diff as
  forward operations, their inverses in reverse order, and the current columns as
  snapshot; \<open>work\<close> prints \<open>Successfully updated migrations\<close>.
\<close>

theorem write_migration_three_outcomes:
  "(h (table_name t) = [] \<longrightarrow>
      write_migration t h = (Inl (RuntimeError ''no baseline''), h)
      \<and> (\<exists>how h' l.
            work write_migration table_name confirm invoke_init invoked t h =
              (how, h', EchoErr (''Could not migrate '' @ table_name t @ '': no baseline'') # l)
            \<and> how \<noteq> Returned))
   \<and> (h (table_name t) \<noteq> [] \<and> diff t (snapshot (last (h (table_name t)))) = [] \<longrightarrow>
      write_migration t h = (Inr False, h)
      \<and> work write_migration table_name confirm invoke_init invoked t h =
          (Returned, h, [Echo (''Found no changes for '' @ table_name t @ ''.'')]))
   \<and> (h (table_name t) \<noteq> [] \<and> diff t (snapshot (last (h (table_name t)))) \<noteq> [] \<longrightarrow>
      (\<exists>step.
          write_migration t h = (Inr True, h(table_name t := h (table_name t) @ [step]))
          \<and> step_index step = Suc (step_index (last (h (table_name t))))
          \<and> forward step = diff t (snapshot (last (h (table_name t))))
          \<and> reverse step = rev (map inverse_op (forward step))
          \<and> snapshot step = columns t
          \<and> work write_migration table_name confirm invoke_init invoked t h =
              (Returned, h(table_name t := h (table_name t) @ [step]),
               [Echo (''Successfully updated migrations for '' @ table_name t @ ''.'')])))"
proof (intro conjI impI)
  assume "h (table_name t) = []"
  then show wm: "write_migration t h = (Inl (RuntimeError ''no baseline''), h)"
    by (rule write_migration_no_baseline)
  from work_runtime_error [of write_migration t h _ _ table_name confirm invoke_init invoked, OF wm]
  show "\<exists>how h' l.
      work write_migration table_name confirm invoke_init invoked t h =
        (how, h', EchoErr (''Could not migrate '' @ table_name t @ '': no baseline'') # l)
      \<and> how \<noteq> Returned"
    by (simp add: could_not_migrate_def)
next
  assume "h (table_name t) \<noteq> [] \<and> diff t (snapshot (last (h (table_name t)))) = []"
  then show wm: "write_migration t h = (Inr False, h)"
    by (simp add: write_migration_no_change)
  from work_returned [of write_migration t h _ _ table_name confirm invoke_init invoked, OF wm]
  show "work write_migration table_name confirm invoke_init invoked t h =
      (Returned, h, [Echo (''Found no changes for '' @ table_name t @ ''.'')])"
    by (simp add: migrated_message_def)
next
  assume "h (table_name t) \<noteq> [] \<and> diff t (snapshot (last (h (table_name t)))) \<noteq> []"
  then have wm: "write_migration t h =
       (Inr True,
        h(table_name t := h (table_name t) @
            [\<lparr>step_index = Suc (step_index (last (h (table_name t)))),
              forward = diff t (snapshot (last (h (table_name t)))),
              reverse = rev (map inverse_op (diff t (snapshot (last (h (table_name t)))))),
              snapshot = columns t\<rparr>]))"
    by (simp add: write_migration_migrated)
  from work_returned [of write_migration t h _ _ table_name confirm invoke_init invoked, OF wm] wm
  show "\<exists>step.
          write_migration t h = (Inr True, h(table_name t := h (table_name t) @ [step]))
          \<and> step_index step = Suc (step_index (last (h (table_name t))))
          \<and> forward step = diff t (snapshot (last (h (table_name t))))
          \<and> reverse step = rev (map inverse_op (forward step))
          \<and> snapshot step = columns t
          \<and> work write_migration table_name confirm invoke_init invoked t h =
              (Returned, h(table_name t := h (table_name t) @ [step]),
               [Echo (''Successfully updated migrations for '' @ table_name t @ ''.'')])"
    by (intro exI [of _ "\<lparr>step_index = Suc (step_index (last (h (table_name t)))),
              forward = diff t (snapshot (last (h (table_name t)))),
              reverse = rev (map inverse_op (diff t (snapshot (last (h (table_name t)))))),
              snapshot = columns t\<rparr>"]) (simp add: migrated_message_def)
qed

theorem write_migration_three_outcomes_witness:
  "write_migration widgets (\<lambda>name. []) = (Inl (RuntimeError ''no baseline''), (\<lambda>name. []))
   \<and> (\<exists>how h' l.
         work write_migration table_name True demo_init False widgets (\<lambda>name. []) =
           (how, h', EchoErr ''Could not migrate widgets: no baseline'' # l)
         \<and> how \<noteq> Returned)
   \<and> diff widgets (snapshot (last (demo_history (table_name widgets)))) = []
   \<and> work write_migration table_name True demo_init False widgets demo_history =
        (Returned, demo_history, [Echo ''Found no changes for widgets.''])
   \<and> diff widgets_enabled (snapshot (last (demo_history (table_name widgets_enabled)))) =
        [AddColumn ''enabled'' (Column Boolean False (Some (DefaultBool False)) True)]
   \<and> fst (write_migration widgets_enabled demo_history) = Inr True
   \<and> snd (write_migration widgets_enabled demo_history) ''widgets'' =
        [\<lparr>step_index = 0, forward = [], reverse = [], snapshot = widgets_columns\<rparr>,
         \<lparr>step_index = 1,
          forward = [AddColumn ''enabled'' (Column Boolean False (Some (DefaultBool False)) True)],
          reverse = [DropColumn ''enabled'' (Column Boolean False (Some (DefaultBool False)) True)],
          snapshot = columns widgets_enabled\<rparr>]
   \<and> fst (work write_migration table_name True demo_init False widgets_enabled demo_history)
        = Returned
   \<and> snd (snd (work write_migration table_name True demo_init False widgets_enabled demo_history))
        = [Echo ''Successfully updated migrations for widgets.'']"
proof -
  have name: "table_name widgets = ''widgets''" "table_name widgets_enabled = ''widgets''"
    by (simp_all add: widgets_def widgets_enabled_def)
  have steps: "demo_history ''widgets'' =
      [\<lparr>step_index = 0, forward = [], reverse = [], snapshot = widgets_columns\<rparr>]"
    by (simp add: demo_history_def)
  have same: "diff widgets (snapshot (last (demo_history (table_name widgets)))) = []"
    by (simp add: name steps diff_def dropped_def added_def altered_def differs_def widgets_def
        widgets_columns_def Column_def)
  have more: "diff widgets_enabled (snapshot (last (demo_history (table_name widgets_enabled)))) =
        [AddColumn ''enabled'' (Column Boolean False (Some (DefaultBool False)) True)]"
    by (simp add: name steps diff_def dropped_def added_def altered_def differs_def
        widgets_enabled_def widgets_columns_def Column_def)
  note first = write_migration_three_outcomes
    [of "\<lambda>name. []" widgets True demo_init False, THEN conjunct1]
  note second = write_migration_three_outcomes
    [of demo_history widgets True demo_init False, THEN conjunct2, THEN conjunct1]
  note third = write_migration_three_outcomes
    [of demo_history widgets_enabled True demo_init False, THEN conjunct2, THEN conjunct2]
  have a: "write_migration widgets (\<lambda>name. []) = (Inl (RuntimeError ''no baseline''), (\<lambda>name. []))
      \<and> (\<exists>how h' l.
         work write_migration table_name True demo_init False widgets (\<lambda>name. []) =
           (how, h', EchoErr ''Could not migrate widgets: no baseline'' # l)
         \<and> how \<noteq> Returned)"
    using first by (simp add: name)
  have b: "work write_migration table_name True demo_init False widgets demo_history =
        (Returned, demo_history, [Echo ''Found no changes for widgets.''])"
    using second same by (simp add: name steps)
  from third more obtain step where
    wm: "write_migration widgets_enabled demo_history =
          (Inr True, demo_history(''widgets'' := demo_history ''widgets'' @ [step]))"
    and idx: "step_index step = Suc 0"
    and fw: "forward step = [AddColumn ''enabled'' (Column Boolean False (Some (DefaultBool False)) True)]"
    and rv: "reverse step = rev (map inverse_op (forward step))"
    and sn: "snapshot step = columns widgets_enabled"
    and w: "work write_migration table_name True demo_init False widgets_enabled demo_history =
          (Returned, demo_history(''widgets'' := demo_history ''widgets'' @ [step]),
           [Echo ''Successfully updated migrations for widgets.''])"
    by (auto simp: name steps)
  have step: "step = \<lparr>step_index = 1,
          forward = [AddColumn ''enabled'' (Column Boolean False (Some (DefaultBool False)) True)],
          reverse = [DropColumn ''enabled'' (Column Boolean False (Some (DefaultBool False)) True)],
          snapshot = columns widgets_enabled\<rparr>"
    using idx fw rv sn by (cases step) simp
  show ?thesis
    using a b same more by (simp add: wm w step steps)
qed

end
